theory Spec2Isabelle
  imports Main "HOL-Library.Sublist"
begin

section \<open>Python strings and the string operations of \<open>app.py\<close>\<close>

text \<open>
  A Python \<open>str\<close> is a sequence of Unicode code points: \<open>len\<close>, slicing, \<open>in\<close> and
  \<open>split\<close> all count code points. The model is a list of code points, each a natural
  number; \<open>S\<close> embeds an ASCII literal.
\<close>

type_synonym pystr = "nat list"

definition S :: "string \<Rightarrow> pystr" where
  "S cs = map of_char cs"

datatype py_error = IndexError | ValueError

text \<open>The text of \<open>str(e)\<close> for the two exceptions the string operations can raise.\<close>

fun error_str :: "py_error \<Rightarrow> pystr" where
  "error_str IndexError = S ''list index out of range''"
| "error_str ValueError = S ''empty separator''"

definition bind_error :: "'e + 'a \<Rightarrow> ('a \<Rightarrow> 'e + 'b) \<Rightarrow> 'e + 'b" where
  "bind_error r f = (case r of Inl e \<Rightarrow> Inl e | Inr v \<Rightarrow> f v)"

text \<open>\<open>s.find(sub)\<close>: the index of the leftmost occurrence, \<open>None\<close> for Python's \<open>-1\<close>.\<close>

fun py_find :: "'a list \<Rightarrow> 'a list \<Rightarrow> nat option" where
  "py_find sub [] = (if sub = [] then Some 0 else None)"
| "py_find sub (x # xs) =
     (if prefix sub (x # xs) then Some 0 else map_option Suc (py_find sub xs))"

text \<open>\<open>sub in s\<close>.\<close>

definition py_in :: "'a list \<Rightarrow> 'a list \<Rightarrow> bool" where
  "py_in sub s = (py_find sub s \<noteq> None)"

lemma py_find_bound: "py_find sub s = Some i \<Longrightarrow> i + length sub \<le> length s"
proof (induction s arbitrary: i)
  case Nil
  then show ?case by (simp split: if_splits)
next
  case (Cons x xs)
  show ?case
  proof (cases "prefix sub (x # xs)")
    case True
    with Cons.prems prefix_length_le [of sub "x # xs"] show ?thesis by simp
  next
    case False
    with Cons.prems obtain j where "py_find sub xs = Some j" "i = Suc j" by auto
    with Cons.IH show ?thesis by fastforce
  qed
qed

text \<open>
  \<open>s.split(sep)\<close> with an explicit separator: the pieces between the non-overlapping
  occurrences of \<open>sep\<close>, found left to right; an empty separator raises \<open>ValueError\<close>.
\<close>

function split_pieces :: "'a list \<Rightarrow> 'a list \<Rightarrow> 'a list list" where
  "split_pieces sep s =
     (if sep = [] then [s]
      else case py_find sep s of
             None \<Rightarrow> [s]
           | Some i \<Rightarrow> take i s # split_pieces sep (drop (i + length sep) s))"
  by pat_completeness auto
termination
proof (relation "measure (\<lambda>(sep, s). length s)")
  show "wf (measure (\<lambda>(sep, s). length s))" by simp
next
  fix sep s :: "'a list" and i
  assume "sep \<noteq> []" and "py_find sep s = Some i"
  then have "i + length sep \<le> length s"
    by (simp add: py_find_bound)
  with \<open>sep \<noteq> []\<close>
  show "((sep, drop (i + length sep) s), (sep, s)) \<in> measure (\<lambda>(sep, s). length s)"
    by (cases sep) auto
qed

declare split_pieces.simps [simp del]

definition py_split :: "'a list \<Rightarrow> 'a list \<Rightarrow> py_error + 'a list list" where
  "py_split sep s = (if sep = [] then Inl ValueError else Inr (split_pieces sep s))"

text \<open>\<open>xs[i]\<close> for a non-negative index: out of range raises \<open>IndexError\<close>.\<close>

definition py_index :: "'a list \<Rightarrow> nat \<Rightarrow> py_error + 'a" where
  "py_index xs i = (if i < length xs then Inr (xs ! i) else Inl IndexError)"

section \<open>The video ID extractor\<close>

text \<open>
  \<^verbatim>\<open>
  def extract_video_id(url):
      if "youtube.com/watch?v=" in url:
          return url.split("watch?v=")[1].split("&")[0]
      elif "youtu.be/" in url:
          return url.split("youtu.be/")[1].split("?")[0]
      return None
  \<close>
  Every \<open>split\<close> and every index of the source is a step that can raise.
\<close>

definition extract_video_id :: "pystr \<Rightarrow> py_error + pystr option" where
  "extract_video_id url =
     (if py_in (S ''youtube.com/watch?v='') url then
        bind_error (py_split (S ''watch?v='') url) (\<lambda>a.
        bind_error (py_index a 1) (\<lambda>b.
        bind_error (py_split (S ''&'') b) (\<lambda>c.
        bind_error (py_index c 0) (\<lambda>d. Inr (Some d)))))
      else if py_in (S ''youtu.be/'') url then
        bind_error (py_split (S ''youtu.be/'') url) (\<lambda>a.
        bind_error (py_index a 1) (\<lambda>b.
        bind_error (py_split (S ''?'') b) (\<lambda>c.
        bind_error (py_index c 0) (\<lambda>d. Inr (Some d)))))
      else Inr None)"

subsection \<open>The reference definition of the specification\<close>

text \<open>The substring after the first occurrence of \<open>sep\<close> (empty when there is none).\<close>

fun substring_after :: "'a list \<Rightarrow> 'a list \<Rightarrow> 'a list" where
  "substring_after sep [] = []"
| "substring_after sep (x # xs) =
     (if prefix sep (x # xs) then drop (length sep) (x # xs) else substring_after sep xs)"

text \<open>The text before the first occurrence of \<open>sep\<close> (all of it when there is none).\<close>

fun up_to :: "'a list \<Rightarrow> 'a list \<Rightarrow> 'a list" where
  "up_to sep [] = []"
| "up_to sep (x # xs) = (if prefix sep (x # xs) then [] else x # up_to sep xs)"

text \<open>
  The specification's rules, word for word: the substring after the marker, up to
  (excluding) the first delimiter character, the whole remainder if there is none.
\<close>

definition spec_video_id :: "pystr \<Rightarrow> pystr option" where
  "spec_video_id url =
     (if sublist (S ''youtube.com/watch?v='') url then
        Some (takeWhile (\<lambda>c. c \<noteq> of_char (CHR ''&'')) (substring_after (S ''watch?v='') url))
      else if sublist (S ''youtu.be/'') url then
        Some (takeWhile (\<lambda>c. c \<noteq> of_char (CHR ''?'')) (substring_after (S ''youtu.be/'') url))
      else None)"

text \<open>
  What the two splits of the source compute: the second piece of the first split ends at
  the next occurrence of the marker as well.
\<close>

definition video_id_pieces :: "pystr \<Rightarrow> pystr option" where
  "video_id_pieces url =
     (if sublist (S ''youtube.com/watch?v='') url then
        Some (takeWhile (\<lambda>c. c \<noteq> of_char (CHR ''&''))
                (up_to (S ''watch?v='') (substring_after (S ''watch?v='') url)))
      else if sublist (S ''youtu.be/'') url then
        Some (takeWhile (\<lambda>c. c \<noteq> of_char (CHR ''?''))
                (up_to (S ''youtu.be/'') (substring_after (S ''youtu.be/'') url)))
      else None)"

section \<open>Further string operations\<close>

text \<open>\<open>sep.join(parts)\<close>.\<close>

fun py_join :: "'a list \<Rightarrow> 'a list list \<Rightarrow> 'a list" where
  "py_join sep [] = []"
| "py_join sep [x] = x"
| "py_join sep (x # y # ys) = x @ sep @ py_join sep (y # ys)"

text \<open>
  \<open>s.lower()\<close> walks over the string and appends the lower case of each code point. For an
  ASCII code point that is the letter itself, moved from \<open>A\<close>..\<open>Z\<close> to \<open>a\<close>..\<open>z\<close>. For a code
  point outside ASCII it is an entry of the Unicode case tables of the Python runtime,
  which are not part of the program: the parameter \<open>ul\<close> stands for them. It is given
  the string and the position, since the lower case of a capital sigma depends on what
  surrounds it, and it returns a string, since one code point can lower to several
  (the Kelvin sign \<open>U+212A\<close> lowers to the ASCII letter \<open>k\<close>).
\<close>

fun lower_loop :: "(pystr \<Rightarrow> nat \<Rightarrow> pystr) \<Rightarrow> pystr \<Rightarrow> nat \<Rightarrow> pystr \<Rightarrow> pystr" where
  "lower_loop ul s i [] = []"
| "lower_loop ul s i (c # cs) =
     (if c < 128 then [if 65 \<le> c \<and> c \<le> 90 then c + 32 else c] else ul s i) @
     lower_loop ul s (Suc i) cs"

definition py_lower :: "(pystr \<Rightarrow> nat \<Rightarrow> pystr) \<Rightarrow> pystr \<Rightarrow> pystr" where
  "py_lower ul s = lower_loop ul s 0 s"

text \<open>The code points for which \<open>str.isspace\<close> holds, and \<open>s.strip()\<close>.\<close>

definition isspace :: "nat \<Rightarrow> bool" where
  "isspace c =
     ((9 \<le> c \<and> c \<le> 13) \<or> (28 \<le> c \<and> c \<le> 32) \<or> c = 133 \<or> c = 160 \<or> c = 5760 \<or>
      (8192 \<le> c \<and> c \<le> 8202) \<or> c = 8232 \<or> c = 8233 \<or> c = 8239 \<or> c = 8287 \<or>
      c = 12288)"

definition py_strip :: "pystr \<Rightarrow> pystr" where
  "py_strip s = rev (dropWhile isspace (rev (dropWhile isspace s)))"

text \<open>\<open>str(n)\<close> for a non-negative integer: its decimal digits.\<close>

fun str_of_nat :: "nat \<Rightarrow> pystr" where
  "str_of_nat n =
     (if n < 10 then [48 + n] else str_of_nat (n div 10) @ [48 + n mod 10])"

declare str_of_nat.simps [simp del]

section \<open>Documents, external services and displayed output\<close>

text \<open>
  The values a metadata dictionary or the downloader's info dictionary holds, as far as
  the program looks at them: \<open>None\<close> or a string. A dictionary keeps its insertion order.
\<close>

datatype pyval = PyNone | PyStr pystr

type_synonym pydict = "(pystr \<times> pyval) list"

text \<open>\<open>d.get(key, default)\<close>.\<close>

definition dict_get :: "pydict \<Rightarrow> pystr \<Rightarrow> pyval \<Rightarrow> pyval" where
  "dict_get d k dflt = (case map_of d k of None \<Rightarrow> dflt | Some v \<Rightarrow> v)"

text \<open>Truth value of \<open>None\<close> or a string, and the text an f-string shows for it.\<close>

fun truthy :: "pyval \<Rightarrow> bool" where
  "truthy PyNone = False"
| "truthy (PyStr s) = (s \<noteq> [])"

fun format_val :: "pyval \<Rightarrow> pystr" where
  "format_val PyNone = S ''None''"
| "format_val (PyStr s) = s"

fun val_of :: "pystr option \<Rightarrow> pyval" where
  "val_of None = PyNone"
| "val_of (Some s) = PyStr s"

text \<open>
  A Document: the loaders' \<open>Document\<close> and the handler's own \<open>SimpleDoc\<close> have the same two
  attributes.
\<close>

record document =
  page_content :: pystr
  metadata :: pydict

text \<open>
  \<^verbatim>\<open>
  class SimpleDoc:
      def __init__(self, content, metadata=None):
          self.page_content = content
          self.metadata = metadata or {}
  \<close>
\<close>

definition SimpleDoc :: "pystr \<Rightarrow> pydict option \<Rightarrow> document" where
  "SimpleDoc content md =
     \<lparr>page_content = content,
      metadata = (case md of None \<Rightarrow> [] | Some m \<Rightarrow> if m = [] then [] else m)\<rparr>"

text \<open>
  A transcript segment as the transcript service returns it; only its text is read.
  The type of the time stamps is left open.
\<close>

record 't segment =
  seg_text :: pystr
  seg_start :: 't
  seg_duration :: 't

text \<open>
  An exception raised inside the transcript helper: its two \<open>try\<close> blocks tell an
  \<open>ImportError\<close> from every other exception. Both carry the text of \<open>str(e)\<close>.
\<close>

datatype py_exception = ImportError pystr | Exception pystr

text \<open>
  Everything outside the program: the URL validator, the five outbound calls, whether
  the two optional packages can be imported, and the Unicode case tables behind
  \<open>str.lower\<close>. A call either raises (\<open>Inl\<close>) or returns (\<open>Inr\<close>). Where the handler
  catches \<open>Exception\<close> only, the exception is its \<open>str(e)\<close>. \<open>'l\<close> is the type of the model
  client.
\<close>

record ('t, 'l) services =
  validators_url :: "pystr \<Rightarrow> bool"
  ChatGroq :: "pystr \<Rightarrow> pystr \<Rightarrow> pystr + 'l"
  YoutubeLoader :: "pystr \<Rightarrow> bool \<Rightarrow> pystr list \<Rightarrow> pystr + document list"
  transcript_api_installed :: bool
  get_transcript :: "pystr \<Rightarrow> pystr list \<Rightarrow> py_exception + 't segment list"
  yt_dlp_installed :: bool
  extract_info :: "pystr \<Rightarrow> bool \<Rightarrow> py_exception + pydict option"
  UnstructuredURLLoader :: "pystr list \<Rightarrow> bool \<Rightarrow> pydict \<Rightarrow> pystr + document list"
  chain_run :: "'l \<Rightarrow> pystr \<Rightarrow> pystr \<Rightarrow> document list \<Rightarrow> pystr + pystr"
  unicode_lower :: "pystr \<Rightarrow> nat \<Rightarrow> pystr"

text \<open>
  What one click does, in order: the outbound calls it makes and the banners and panels
  it shows.
\<close>

datatype 'l event =
    Call_ChatGroq pystr pystr
  | Call_YoutubeLoader pystr bool "pystr list"
  | Call_get_transcript pystr "pystr list"
  | Call_extract_info pystr bool
  | Call_UnstructuredURLLoader "pystr list" bool pydict
  | Call_chain_run 'l pystr pystr "document list"
  | St_info pystr
  | St_success pystr
  | St_warning pystr
  | St_error pystr
  | St_subheader pystr
  | St_write pystr
  | St_json pydict

section \<open>The prompt\<close>

text \<open>
  \<^verbatim>\<open>
  prompt_template = """
  Provide a summary of the following content in 300 words:
  Content:{text}

  """
  \<close>
  The literal starts with a line break and ends with two.
\<close>

definition prompt_template :: pystr where
  "prompt_template =
     [10] @ S ''Provide a summary of the following content in 300 words:'' @ [10] @
     S ''Content:{text}'' @ [10, 10]"

text \<open>
  Modelled from the spec: the substitution of the Document's content for the placeholder
  \<open>{text}\<close> happens inside the summarisation library, which is not part of the source;
  the specification describes it as substituting the content into the template.
\<close>

definition fill_template :: "pystr \<Rightarrow> pystr \<Rightarrow> pystr" where
  "fill_template template content = py_join content (split_pieces (S ''{text}'') template)"

text \<open>The template as the specification quotes it.\<close>

definition spec_template :: pystr where
  "spec_template =
     S ''Provide a summary of the following content in 300 words:'' @ [10] @
     S ''Content:{text}''"

section \<open>The transcript helper\<close>

text \<open>
  \<^verbatim>\<open>
  # Method 1: Try youtube-transcript-api
  try:
      from youtube_transcript_api import YouTubeTranscriptApi
      transcript_list = YouTubeTranscriptApi.get_transcript(video_id, languages=['en', 'en-US', 'en-GB'])
      text = " ".join([item['text'] for item in transcript_list])
      return text, "transcript-api"
  except ImportError:
      st.warning("youtube-transcript-api not installed. ...")
  except Exception as e:
      st.warning(f"Transcript API failed: {str(e)}")
  \<close>
  The result is \<open>Some\<close> of the returned pair, or \<open>None\<close> when control falls through to the
  next method; the second component lists what was called and shown. The \<open>ImportError\<close>
  handler is reached when the import fails, and also when the call itself raises an
  \<open>ImportError\<close>.
\<close>

definition msg_transcript_api_missing :: pystr where
  "msg_transcript_api_missing =
     S ''youtube-transcript-api not installed. Install with: pip install youtube-transcript-api''"

definition msg_yt_dlp_missing :: pystr where
  "msg_yt_dlp_missing = S ''yt-dlp not installed. Install with: pip install yt-dlp''"

definition transcript_languages :: "pystr list" where
  "transcript_languages = [S ''en'', S ''en-US'', S ''en-GB'']"

definition method1_transcript_api ::
  "('t, 'l) services \<Rightarrow> pystr \<Rightarrow> (pystr \<times> pystr) option \<times> 'l event list" where
  "method1_transcript_api sv video_id =
     (if \<not> transcript_api_installed sv then
        (None, [St_warning msg_transcript_api_missing])
      else
        case get_transcript sv video_id transcript_languages of
          Inr transcript_list \<Rightarrow>
            (Some (py_join (S '' '') (map seg_text transcript_list), S ''transcript-api''),
             [Call_get_transcript video_id transcript_languages])
        | Inl (ImportError e) \<Rightarrow>
            (None, [Call_get_transcript video_id transcript_languages,
                    St_warning msg_transcript_api_missing])
        | Inl (Exception e) \<Rightarrow>
            (None, [Call_get_transcript video_id transcript_languages,
                    St_warning (S ''Transcript API failed: '' @ e)]))"

text \<open>
  \<^verbatim>\<open>
  # Method 2: Try yt-dlp
  try:
      import yt_dlp
      ydl_opts = {...}
      with yt_dlp.YoutubeDL(ydl_opts) as ydl:
          info = ydl.extract_info(f"https://youtube.com/watch?v={video_id}", download=False)
          # Get description as fallback
          description = info.get('description', '')
          if description and len(description) > 100:
              return description[:2000], "description"  # Limit length
  except ImportError:
      st.warning("yt-dlp not installed. Install with: pip install yt-dlp")
  except Exception as e:
      st.warning(f"yt-dlp failed: {str(e)}")
  \<close>
  When \<open>extract_info\<close> returns \<open>None\<close>, \<open>info.get\<close> raises \<open>AttributeError\<close>, which the last
  handler turns into a warning.
\<close>

definition none_has_no_get :: pystr where
  "none_has_no_get = [39] @ S ''NoneType'' @ [39] @ S '' object has no attribute '' @ [39] @ S ''get'' @ [39]"

fun py_len :: "pyval \<Rightarrow> nat" where
  "py_len PyNone = 0"
| "py_len (PyStr s) = length s"

fun py_slice_to :: "nat \<Rightarrow> pyval \<Rightarrow> pystr" where
  "py_slice_to n PyNone = []"
| "py_slice_to n (PyStr s) = take n s"

definition method2_yt_dlp ::
  "('t, 'l) services \<Rightarrow> pystr \<Rightarrow> (pystr \<times> pystr) option \<times> 'l event list" where
  "method2_yt_dlp sv video_id =
     (if \<not> yt_dlp_installed sv then (None, [St_warning msg_yt_dlp_missing])
      else
        let url = S ''https://youtube.com/watch?v='' @ video_id in
        case extract_info sv url False of
          Inl (ImportError e) \<Rightarrow>
            (None, [Call_extract_info url False, St_warning msg_yt_dlp_missing])
        | Inl (Exception e) \<Rightarrow>
            (None, [Call_extract_info url False, St_warning (S ''yt-dlp failed: '' @ e)])
        | Inr None \<Rightarrow>
            (None, [Call_extract_info url False,
                    St_warning (S ''yt-dlp failed: '' @ none_has_no_get)])
        | Inr (Some info) \<Rightarrow>
            let description = dict_get info (S ''description'') (PyStr []) in
            if truthy description \<and> 100 < py_len description then
              (Some (py_slice_to 2000 description, S ''description''),
               [Call_extract_info url False])
            else (None, [Call_extract_info url False]))"

text \<open>
  \<^verbatim>\<open>
  def get_youtube_transcript(video_id):
      try:
          <Method 1>
          <Method 2>
          return None, None
      except Exception as e:
          return None, str(e)
  \<close>
  Both methods catch every exception of their own calls, so the outer handler is reached
  only if showing a warning itself raises, which the model does not include.
\<close>

definition get_youtube_transcript ::
  "('t, 'l) services \<Rightarrow> pystr \<Rightarrow> (pystr option \<times> pystr option) \<times> 'l event list" where
  "get_youtube_transcript sv video_id =
     (case method1_transcript_api sv video_id of
        (Some (text, method), ev1) \<Rightarrow> ((Some text, Some method), ev1)
      | (None, ev1) \<Rightarrow>
          (case method2_yt_dlp sv video_id of
             (Some (text, method), ev2) \<Rightarrow> ((Some text, Some method), ev1 @ ev2)
           | (None, ev2) \<Rightarrow> ((None, None), ev1 @ ev2)))"

section \<open>The button handler\<close>

definition msg_troubleshooting :: pystr where
  "msg_troubleshooting =
     [10] @ S ''                                **Troubleshooting YouTube Issues:**'' @
     [10] @ S ''                                1. Make sure the video is public'' @
     [10] @ S ''                                2. Check if the video has captions/transcripts'' @
     [10] @ S ''                                3. Install required packages:'' @
     [10] @ S ''                                   - `pip install youtube-transcript-api`'' @
     [10] @ S ''                                   - `pip install yt-dlp`'' @
     [10] @ S ''                                4. Try a different YouTube URL'' @
     [10] @ S ''                                ''"

definition loader_languages :: "pystr list" where
  "loader_languages = [S ''en'', S ''en-US'']"

text \<open>
  The \<open>else\<close> branch of \<open>if not video_id\<close>: the primary loader, and in its exception
  handler the transcript helper and the \<open>SimpleDoc\<close>, built \<open>if transcript_text\<close>, that
  is, when the text is neither \<open>None\<close> nor empty. The result is the value of \<open>docs\<close>.
\<close>

definition load_youtube ::
  "('t, 'l) services \<Rightarrow> pystr \<Rightarrow> pystr \<Rightarrow> document list option \<times> 'l event list" where
  "load_youtube sv generic_url video_id =
     (case YoutubeLoader sv generic_url True loader_languages of
        Inr docs \<Rightarrow>
          (Some docs,
           [Call_YoutubeLoader generic_url True loader_languages,
            St_success ([9989] @ S '' Loaded using YoutubeLoader'')])
      | Inl e \<Rightarrow>
          (case get_youtube_transcript sv video_id of
             ((transcript_text, method), evs) \<Rightarrow>
               let failed =
                 (None,
                  [Call_YoutubeLoader generic_url True loader_languages,
                   St_warning (S ''YoutubeLoader failed: '' @ e)] @ evs @
                  [St_error ([10060] @ S '' All YouTube loading methods failed''),
                   St_info msg_troubleshooting])
               in
               case transcript_text of
                 None \<Rightarrow> failed
               | Some t \<Rightarrow>
                   if t = [] then failed
                   else
                     (Some [SimpleDoc t
                              (Some [(S ''source'', PyStr generic_url),
                                     (S ''method'', val_of method)])],
                      [Call_YoutubeLoader generic_url True loader_languages,
                       St_warning (S ''YoutubeLoader failed: '' @ e)] @ evs @
                      [St_success ([9989] @ S '' Loaded using '' @ format_val (val_of method))])))"

definition user_agent_headers :: pydict where
  "user_agent_headers =
     [(S ''User-Agent'',
       PyStr (S ''Mozilla/5.0 (Windows NT 10.0; Win64; x64) AppleWebKit/537.36 (KHTML, like Gecko) Chrome/91.0.4472.124 Safari/537.36''))]"

definition load_website ::
  "('t, 'l) services \<Rightarrow> pystr \<Rightarrow> document list option \<times> 'l event list" where
  "load_website sv generic_url =
     (case UnstructuredURLLoader sv [generic_url] False user_agent_headers of
        Inr docs \<Rightarrow>
          (Some docs,
           [St_info ([128260] @ S '' Loading website...''),
            Call_UnstructuredURLLoader [generic_url] False user_agent_headers,
            St_success ([9989] @ S '' Website loaded successfully'')])
      | Inl e \<Rightarrow>
          (None,
           [St_info ([128260] @ S '' Loading website...''),
            Call_UnstructuredURLLoader [generic_url] False user_agent_headers,
            St_error ([10060] @ S '' Failed to load website: '' @ e)]))"

text \<open>
  \<^verbatim>\<open>if "youtube.com" in generic_url or "youtu.be" in generic_url:\<close>
\<close>

definition is_youtube_url :: "pystr \<Rightarrow> bool" where
  "is_youtube_url generic_url =
     (py_in (S ''youtube.com'') generic_url \<or> py_in (S ''youtu.be'') generic_url)"

datatype url_kind = YouTube | Website

definition classify_url :: "pystr \<Rightarrow> url_kind" where
  "classify_url generic_url = (if is_youtube_url generic_url then YouTube else Website)"

text \<open>
  The loading part of the handler. \<open>Inl\<close> is an exception that leaves it towards the
  outermost handler (only \<open>extract_video_id\<close> is outside a local \<open>try\<close>); \<open>Inr\<close> is the
  value of \<open>docs\<close>.
\<close>

definition load_content ::
  "('t, 'l) services \<Rightarrow> pystr \<Rightarrow> (pystr + document list option) \<times> 'l event list" where
  "load_content sv generic_url =
     (case classify_url generic_url of
        YouTube \<Rightarrow>
          (case extract_video_id generic_url of
             Inl err \<Rightarrow>
               (Inl (error_str err), [St_info ([128260] @ S '' Loading YouTube video...'')])
           | Inr video_id \<Rightarrow>
               let missing =
                 (Inr None,
                  [St_info ([128260] @ S '' Loading YouTube video...''),
                   St_error ([10060] @ S '' Could not extract video ID from URL'')])
               in
               case video_id of
                 None \<Rightarrow> missing
               | Some v \<Rightarrow>
                   if v = [] then missing
                   else
                     (case load_youtube sv generic_url v of
                        (docs, evs) \<Rightarrow>
                          (Inr docs,
                           St_info ([128260] @ S '' Loading YouTube video...'') # evs)))
      | Website \<Rightarrow>
          (case load_website sv generic_url of (docs, evs) \<Rightarrow> (Inr docs, evs)))"

text \<open>
  \<^verbatim>\<open>
  if docs and len(docs) > 0:
      chain = load_summarize_chain(llm, chain_type="stuff", prompt=prompt)
      output_summary = chain.run(docs)
      st.subheader("... Summary")
      st.success(output_summary)
      with st.expander("... Content Details"):
          st.write(f"**Content length:** {len(docs[0].page_content)} characters")
          if hasattr(docs[0], 'metadata') and docs[0].metadata:
              st.json(docs[0].metadata)
  else:
      st.error("... Could not load any content from the URL")
  \<close>
  The first component is the exception of \<open>chain.run\<close>, if it raised.
\<close>

definition generate_summary ::
  "('t, 'l) services \<Rightarrow> 'l \<Rightarrow> document list option \<Rightarrow> pystr option \<times> 'l event list" where
  "generate_summary sv llm docs =
     (case docs of
        Some (d # ds) \<Rightarrow>
          (case chain_run sv llm (S ''stuff'') prompt_template (d # ds) of
             Inl e \<Rightarrow> (Some e, [Call_chain_run llm (S ''stuff'') prompt_template (d # ds)])
           | Inr output_summary \<Rightarrow>
               (None,
                [Call_chain_run llm (S ''stuff'') prompt_template (d # ds),
                 St_subheader ([128203] @ S '' Summary''),
                 St_success output_summary,
                 St_write (S ''**Content length:** '' @ str_of_nat (length (page_content d)) @
                           S '' characters'')] @
                (if metadata d \<noteq> [] then [St_json (metadata d)] else [])))
      | _ \<Rightarrow> (None, [St_error ([10060] @ S '' Could not load any content from the URL'')]))"

text \<open>The body of the outermost \<open>try\<close>.\<close>

definition try_body ::
  "('t, 'l) services \<Rightarrow> pystr \<Rightarrow> pystr \<Rightarrow> pystr option \<times> 'l event list" where
  "try_body sv groq_api_key generic_url =
     (case ChatGroq sv (S ''gemma2-9b-it'') groq_api_key of
        Inl e \<Rightarrow> (Some e, [Call_ChatGroq (S ''gemma2-9b-it'') groq_api_key])
      | Inr llm \<Rightarrow>
          (case load_content sv generic_url of
             (Inl e, evs) \<Rightarrow> (Some e, Call_ChatGroq (S ''gemma2-9b-it'') groq_api_key # evs)
           | (Inr docs, evs) \<Rightarrow>
               (case generate_summary sv llm docs of
                  (exc, evs') \<Rightarrow>
                    (exc, Call_ChatGroq (S ''gemma2-9b-it'') groq_api_key # evs @ evs'))))"

text \<open>
  \<^verbatim>\<open>
  except Exception as e:
      error_msg = str(e).lower()
      if "groq_api_key" in error_msg or "api key" in error_msg:
          st.error("... Invalid Groq API key. Please check your key and try again.")
      elif "quota" in error_msg:
          st.error("... API quota exceeded. Please try again later.")
      else:
          st.error(f"... Unexpected error: {str(e)}")
  \<close>
\<close>

definition msg_invalid_key :: pystr where
  "msg_invalid_key = [10060] @ S '' Invalid Groq API key. Please check your key and try again.''"

definition msg_quota :: pystr where
  "msg_quota = [10060] @ S '' API quota exceeded. Please try again later.''"

definition msg_unexpected :: "pystr \<Rightarrow> pystr" where
  "msg_unexpected e = [10060] @ S '' Unexpected error: '' @ e"

definition except_handler :: "(pystr \<Rightarrow> nat \<Rightarrow> pystr) \<Rightarrow> pystr \<Rightarrow> pystr" where
  "except_handler ul e =
     (let error_msg = py_lower ul e in
      if py_in (S ''groq_api_key'') error_msg \<or> py_in (S ''api key'') error_msg then
        msg_invalid_key
      else if py_in (S ''quota'') error_msg then msg_quota
      else msg_unexpected e)"

text \<open>
  \<^verbatim>\<open>
  if st.button("Summarize the Content from YT or Website"):
      if not groq_api_key.strip() or not generic_url.strip():
          st.error("Please provide the information to get started")
      elif not validators.url(generic_url):
          st.error("Please enter a valid URL. ...")
      else:
          try: ...
          except Exception as e: ...
  \<close>
  The result is everything one click calls and shows, in order.
\<close>

definition on_click :: "('t, 'l) services \<Rightarrow> pystr \<Rightarrow> pystr \<Rightarrow> 'l event list" where
  "on_click sv groq_api_key generic_url =
     (if py_strip groq_api_key = [] \<or> py_strip generic_url = [] then
        [St_error (S ''Please provide the information to get started'')]
      else if \<not> validators_url sv generic_url then
        [St_error (S ''Please enter a valid URL. It can be a YouTube video URL or website URL'')]
      else
        case try_body sv groq_api_key generic_url of
          (None, evs) \<Rightarrow> evs
        | (Some e, evs) \<Rightarrow> evs @ [St_error (except_handler (unicode_lower sv) e)])"

section \<open>Reading the record of a click\<close>

text \<open>The three YouTube strategies, and which of them an outbound call belongs to.\<close>

datatype strategy = Primary | Transcript | Description

fun strategy_of :: "'l event \<Rightarrow> strategy list" where
  "strategy_of (Call_YoutubeLoader u i l) = [Primary]"
| "strategy_of (Call_get_transcript v l) = [Transcript]"
| "strategy_of (Call_extract_info u d) = [Description]"
| "strategy_of _ = []"

definition strategies_attempted :: "'l event list \<Rightarrow> strategy list" where
  "strategies_attempted evs = concat (map strategy_of evs)"

fun is_chain_run :: "'l event \<Rightarrow> bool" where
  "is_chain_run (Call_chain_run l c t ds) = True"
| "is_chain_run _ = False"

section \<open>Example services\<close>

text \<open>
  One concrete world to run the handler in: the primary loader is unavailable, the
  transcript service returns the two segments \<open>Hello\<close> and \<open>world\<close>, the downloader knows a
  description of 150 characters, the website loader returns one Document and the model
  answers \<open>summary\<close>. Of the Unicode case tables it has two entries: the Kelvin sign
  lowers to \<open>k\<close>, the capital I with dot above to \<open>i\<close> and a combining dot.
\<close>

definition example_services :: "(nat, unit) services" where
  "example_services =
     \<lparr>validators_url = (\<lambda>u. True),
      ChatGroq = (\<lambda>m k. Inr ()),
      YoutubeLoader = (\<lambda>u i l. Inl (S ''unavailable'')),
      transcript_api_installed = True,
      get_transcript =
        (\<lambda>v l. Inr [\<lparr>seg_text = S ''Hello'', seg_start = 0, seg_duration = 1\<rparr>,
                    \<lparr>seg_text = S ''world'', seg_start = 1, seg_duration = 1\<rparr>]),
      yt_dlp_installed = True,
      extract_info = (\<lambda>u d. Inr (Some [(S ''description'', PyStr (replicate 150 120))])),
      UnstructuredURLLoader =
        (\<lambda>us v h. Inr [\<lparr>page_content = S ''Some page'', metadata = [(S ''source'', PyStr (hd us))]\<rparr>]),
      chain_run = (\<lambda>l c t ds. Inr (S ''summary'')),
      unicode_lower =
        (\<lambda>s i. if s ! i = 8490 then [107] else if s ! i = 304 then [105, 775] else [s ! i])\<rparr>"

section \<open>Facts about the string operations\<close>

lemma py_in_sublist: "py_in sub s = sublist sub s"
  unfolding py_in_def by (induction s) (auto simp: sublist_Cons_right)

lemma py_find_pieces:
  "py_find sep s = Some i \<Longrightarrow>
     take i s = up_to sep s \<and> drop (i + length sep) s = substring_after sep s"
proof (induction s arbitrary: i)
  case Nil
  then show ?case by (simp split: if_splits)
next
  case (Cons x xs)
  show ?case
  proof (cases "prefix sep (x # xs)")
    case True
    with Cons.prems show ?thesis by simp
  next
    case False
    with Cons.prems obtain j where "py_find sep xs = Some j" "i = Suc j" by auto
    with Cons.IH False show ?thesis by simp
  qed
qed

lemma py_find_none: "py_find sep s = None \<Longrightarrow> up_to sep s = s"
  by (induction s) (auto split: if_splits)

lemma split_pieces_hd:
  "sep \<noteq> [] \<Longrightarrow> split_pieces sep s \<noteq> [] \<and> hd (split_pieces sep s) = up_to sep s"
  by (cases "py_find sep s")
    (simp_all add: split_pieces.simps [of sep s] py_find_none py_find_pieces)

lemma split_pieces_second:
  assumes "sep \<noteq> []" and "py_in sep s"
  shows "1 < length (split_pieces sep s) \<and>
         split_pieces sep s ! 1 = up_to sep (substring_after sep s)"
proof -
  from assms(2) obtain i where i: "py_find sep s = Some i"
    by (auto simp: py_in_def)
  let ?rest = "split_pieces sep (substring_after sep s)"
  from i assms(1) have "split_pieces sep s = take i s # ?rest"
    by (simp add: split_pieces.simps [of sep s] py_find_pieces)
  moreover from split_pieces_hd [OF assms(1), of "substring_after sep s"]
  have "?rest \<noteq> []" and "hd ?rest = up_to sep (substring_after sep s)" by simp_all
  ultimately show ?thesis by (cases ?rest) simp_all
qed

text \<open>What \<open>up_to\<close> and \<open>substring_after\<close> are: the two sides of the first occurrence.\<close>

lemma first_occurrence_split:
  "sublist sep s \<Longrightarrow> s = up_to sep s @ sep @ substring_after sep s"
proof (induction s)
  case Nil
  then show ?case by simp
next
  case (Cons x xs)
  show ?case
  proof (cases "prefix sep (x # xs)")
    case True
    then obtain r where r: "x # xs = sep @ r" by (auto simp: prefix_def)
    from True have "up_to sep (x # xs) = []"
      and "substring_after sep (x # xs) = drop (length sep) (x # xs)" by simp_all
    with r show ?thesis by simp
  next
    case False
    with Cons.prems have "sublist sep xs" by (simp add: sublist_Cons_right)
    with Cons.IH False show ?thesis by simp
  qed
qed

lemma up_to_no_occurrence: "\<not> sublist sep s \<Longrightarrow> up_to sep s = s"
  by (induction s) (auto simp: sublist_Cons_right)

lemma up_to_single: "up_to [c] s = takeWhile (\<lambda>x. x \<noteq> c) s"
  by (induction s) auto

text \<open>What \<open>join\<close> builds: the first part, then each further part behind a separator.\<close>

lemma py_join_concat:
  "py_join sep xs = (case xs of [] \<Rightarrow> [] | t # ts \<Rightarrow> t @ concat (map (\<lambda>x. sep @ x) ts))"
  by (induction sep xs rule: py_join.induct) simp_all






text \<open>One branch of the extractor: split at the marker, second piece, split at the
  delimiter character, first piece. Neither index is out of range.\<close>

lemma extract_branch:
  assumes "sep \<noteq> []" and "py_in sep url"
  shows "bind_error (py_split sep url) (\<lambda>a.
         bind_error (py_index a 1) (\<lambda>b.
         bind_error (py_split [c] b) (\<lambda>c.
         bind_error (py_index c 0) (\<lambda>d. Inr (Some d))))) =
         Inr (Some (takeWhile (\<lambda>x. x \<noteq> c) (up_to sep (substring_after sep url))))"
proof -
  let ?b = "up_to sep (substring_after sep url)"
  from split_pieces_second [OF assms]
  have "py_index (split_pieces sep url) 1 = Inr ?b" by (simp add: py_index_def)
  moreover from split_pieces_hd [of "[c]" ?b]
  have "py_index (split_pieces [c] ?b) 0 = Inr (takeWhile (\<lambda>x. x \<noteq> c) ?b)"
    by (cases "split_pieces [c] ?b") (simp_all add: py_index_def up_to_single)
  ultimately show ?thesis using assms(1)
    by (simp add: bind_error_def py_split_def)
qed

lemma watch_in:
  assumes "sublist (S ''youtube.com/watch?v='') url"
  shows "sublist (S ''watch?v='') url"
proof -
  have "S ''youtube.com/watch?v='' = S ''youtube.com/'' @ S ''watch?v=''"
    by (simp add: S_def)
  moreover from assms obtain ps ss where "url = ps @ S ''youtube.com/watch?v='' @ ss"
    by (auto simp: sublist_def)
  ultimately have "url = (ps @ S ''youtube.com/'') @ S ''watch?v='' @ ss" by simp
  then show ?thesis unfolding sublist_def by blast
qed

lemma extract_video_id_eq: "extract_video_id url = Inr (video_id_pieces url)"
proof -
  have amp: "S ''&'' = [of_char (CHR ''&'')]" and qm: "S ''?'' = [of_char (CHR ''?'')]"
    by (simp_all add: S_def)
  have ne: "S ''watch?v='' \<noteq> []" "S ''youtu.be/'' \<noteq> []" by (simp_all add: S_def)
  show ?thesis
  proof (cases "sublist (S ''youtube.com/watch?v='') url")
    case True
    then have "py_in (S ''watch?v='') url" by (simp add: py_in_sublist watch_in)
    from extract_branch [OF ne(1) this] True show ?thesis
      unfolding extract_video_id_def video_id_pieces_def amp by (simp add: py_in_sublist)
  next
    case False
    show ?thesis
    proof (cases "sublist (S ''youtu.be/'') url")
      case True
      then have "py_in (S ''youtu.be/'') url" by (simp add: py_in_sublist)
      from extract_branch [OF ne(2) this] True False show ?thesis
        unfolding extract_video_id_def video_id_pieces_def qm by (simp add: py_in_sublist)
    next
      case nope: False
      with False show ?thesis
        by (simp add: extract_video_id_def video_id_pieces_def py_in_sublist)
    qed
  qed
qed

text \<open>Unfolding everything the extractor is made of runs it on a literal URL.\<close>

lemmas extract_run =
  extract_video_id_def py_in_def bind_error_def py_split_def py_index_def
  split_pieces.simps S_def

section \<open>C1: the video ID extractor and the reference definition\<close>

text \<open>
  C1, as stated, says that the extractor equals the reference definition
  \<open>spec_video_id\<close>: the text after the marker up to the first delimiter, the whole
  remainder if there is no delimiter. It does not: \<open>url.split("watch?v=")[1]\<close> is the
  piece between the first and the second occurrence of the marker, so a second marker
  before the delimiter ends the identifier. For the URL below the reference definition
  gives \<open>abwatch?v=cd\<close>, and the extractor gives \<open>ab\<close>.
\<close>

theorem extract_video_id_spec_counterexample:
  "extract_video_id (S ''https://youtube.com/watch?v=abwatch?v=cd'') = Inr (Some (S ''ab'')) \<and>
   spec_video_id (S ''https://youtube.com/watch?v=abwatch?v=cd'') = Some (S ''abwatch?v=cd'') \<and>
   extract_video_id (S ''https://youtube.com/watch?v=abwatch?v=cd'') \<noteq>
     Inr (spec_video_id (S ''https://youtube.com/watch?v=abwatch?v=cd''))"
  by (simp add: extract_run spec_video_id_def sublist_code)

text \<open>
  C1 (amended): for every URL string the extractor raises no exception (the result is
  always \<open>Inr\<close>); if the URL contains \<open>youtube.com/watch?v=\<close> the result is the text after
  the first \<open>watch?v=\<close> up to (excluding) the first \<open>&\<close> or the next \<open>watch?v=\<close>, whichever
  comes first, the whole remainder if neither occurs; else if it contains \<open>youtu.be/\<close>
  the result is the text after the first \<open>youtu.be/\<close> up to (excluding) the first \<open>?\<close> or
  the next \<open>youtu.be/\<close>, whichever comes first; else the result is nothing.
\<close>

theorem extract_video_id_pieces: "extract_video_id url = Inr (video_id_pieces url)"
  by (rule extract_video_id_eq)

theorem extract_video_id_pieces_witness:
  "extract_video_id (S ''https://www.youtube.com/watch?v=UyyjU8fzEYU&t=3'') =
     Inr (Some (S ''UyyjU8fzEYU''))"
  using extract_video_id_pieces [of "S ''https://www.youtube.com/watch?v=UyyjU8fzEYU&t=3''"]
  by (simp add: video_id_pieces_def S_def sublist_code)

section \<open>Facts about the handler\<close>

lemma method2_description:
  assumes "yt_dlp_installed sv"
    and "extract_info sv (S ''https://youtube.com/watch?v='' @ video_id) False = Inr (Some info)"
    and "map_of info (S ''description'') = Some (PyStr d)"
  shows "fst (method2_yt_dlp sv video_id) =
           (if 100 < length d then Some (take 2000 d, S ''description'') else None)"
  using assms by (auto simp: method2_yt_dlp_def dict_get_def Let_def)

lemma method1_not_returned:
  "fst (method1_transcript_api sv v) = None \<longleftrightarrow>
     \<not> transcript_api_installed sv \<or> isl (get_transcript sv v transcript_languages)"
  by (simp add: method1_transcript_api_def split: sum.splits py_exception.splits)

lemma get_youtube_transcript_second:
  "fst (method1_transcript_api sv v) = None \<Longrightarrow> fst (method2_yt_dlp sv v) = Some (t, m) \<Longrightarrow>
   fst (get_youtube_transcript sv v) = (Some t, Some m)"
  by (cases "method1_transcript_api sv v"; cases "method2_yt_dlp sv v")
    (simp add: get_youtube_transcript_def)

lemma method1_returned:
  "transcript_api_installed sv \<Longrightarrow> get_transcript sv v transcript_languages = Inr segs \<Longrightarrow>
   fst (method1_transcript_api sv v) =
     Some (py_join (S '' '') (map seg_text segs), S ''transcript-api'')"
  by (simp add: method1_transcript_api_def)

lemma get_youtube_transcript_none:
  "fst (method1_transcript_api sv v) = None \<Longrightarrow> fst (method2_yt_dlp sv v) = None \<Longrightarrow>
   fst (get_youtube_transcript sv v) = (None, None)"
  by (cases "method1_transcript_api sv v"; cases "method2_yt_dlp sv v")
    (simp add: get_youtube_transcript_def)

lemma get_youtube_transcript_first:
  "fst (method1_transcript_api sv v) = Some (t, m) \<Longrightarrow>
   fst (get_youtube_transcript sv v) = (Some t, Some m)"
  by (cases "method1_transcript_api sv v") (simp add: get_youtube_transcript_def)

lemma load_youtube_failed:
  "YoutubeLoader sv url True loader_languages = Inl e \<Longrightarrow>
   fst (get_youtube_transcript sv v) = (None, None) \<Longrightarrow> fst (load_youtube sv url v) = None"
  by (cases "get_youtube_transcript sv v") (auto simp: load_youtube_def Let_def)

lemma load_youtube_fallback:
  "YoutubeLoader sv url True loader_languages = Inl e \<Longrightarrow>
   fst (get_youtube_transcript sv v) = (Some t, Some m) \<Longrightarrow>
   fst (load_youtube sv url v) =
     (if t = [] then None
      else Some [\<lparr>page_content = t,
                  metadata = [(S ''source'', PyStr url), (S ''method'', PyStr m)]\<rparr>])"
  by (cases "get_youtube_transcript sv v") (auto simp: load_youtube_def Let_def SimpleDoc_def)

lemma load_content_youtube:
  "classify_url url = YouTube \<Longrightarrow> extract_video_id url = Inr (Some v) \<Longrightarrow> v \<noteq> [] \<Longrightarrow>
   fst (load_content sv url) = Inr (fst (load_youtube sv url v))"
  by (cases "load_youtube sv url v") (simp add: load_content_def Let_def)


subsection \<open>Which strategies a click attempts\<close>

lemma sa_append:
  "strategies_attempted (a @ b) = strategies_attempted a @ strategies_attempted b"
  by (simp add: strategies_attempted_def)

lemma sa_Cons: "strategies_attempted (x # a) = strategy_of x @ strategies_attempted a"
  by (simp add: strategies_attempted_def)

lemma sa_Nil: "strategies_attempted [] = []"
  by (simp add: strategies_attempted_def)

lemmas sa_simps = sa_append sa_Cons sa_Nil

lemma sa_method1:
  "strategies_attempted (snd (method1_transcript_api sv v)) =
     (if transcript_api_installed sv then [Transcript] else [])"
  by (simp add: method1_transcript_api_def sa_simps split: sum.splits py_exception.splits)

lemma sa_method2:
  "strategies_attempted (snd (method2_yt_dlp sv v)) =
     (if yt_dlp_installed sv then [Description] else [])"
  by (simp add: method2_yt_dlp_def sa_simps Let_def
      split: sum.splits option.splits py_exception.splits)

lemma sa_get_youtube_transcript:
  "strategies_attempted (snd (get_youtube_transcript sv v)) =
     strategies_attempted (snd (method1_transcript_api sv v)) @
     (if fst (method1_transcript_api sv v) = None
      then strategies_attempted (snd (method2_yt_dlp sv v)) else [])"
  by (cases "method1_transcript_api sv v"; cases "method2_yt_dlp sv v")
    (auto simp: get_youtube_transcript_def sa_simps split: option.splits)

lemma sa_load_youtube:
  "strategies_attempted (snd (load_youtube sv url v)) =
     Primary # (case YoutubeLoader sv url True loader_languages of
                  Inr docs \<Rightarrow> []
                | Inl e \<Rightarrow> strategies_attempted (snd (get_youtube_transcript sv v)))"
  by (cases "get_youtube_transcript sv v")
    (auto simp: load_youtube_def sa_simps Let_def split: sum.splits option.splits)

lemma sa_load_website: "strategies_attempted (snd (load_website sv url)) = []"
  by (simp add: load_website_def sa_simps split: sum.splits)

lemma sa_generate_summary: "strategies_attempted (snd (generate_summary sv llm docs)) = []"
  by (simp add: generate_summary_def sa_simps split: sum.splits option.splits list.splits)

lemma sa_load_content:
  "strategies_attempted (snd (load_content sv url)) =
     (case classify_url url of
        Website \<Rightarrow> []
      | YouTube \<Rightarrow>
          (case extract_video_id url of
             Inr (Some v) \<Rightarrow>
               if v = [] then [] else strategies_attempted (snd (load_youtube sv url v))
           | _ \<Rightarrow> []))"
proof (cases "classify_url url")
  case Website
  with sa_load_website [of sv url] show ?thesis
    by (cases "load_website sv url") (simp add: load_content_def)
next
  case YouTube
  show ?thesis
  proof (cases "extract_video_id url")
    case (Inl err)
    with YouTube show ?thesis by (simp add: load_content_def sa_simps)
  next
    case (Inr vid)
    show ?thesis
    proof (cases vid)
      case None
      with YouTube Inr show ?thesis by (simp add: load_content_def sa_simps)
    next
      case (Some v)
      with YouTube Inr show ?thesis
        by (cases "load_youtube sv url v") (simp add: load_content_def sa_simps)
    qed
  qed
qed

lemma sa_try_body:
  "strategies_attempted (snd (try_body sv key url)) =
     (case ChatGroq sv (S ''gemma2-9b-it'') key of
        Inl e \<Rightarrow> []
      | Inr llm \<Rightarrow> strategies_attempted (snd (load_content sv url)))"
proof (cases "ChatGroq sv (S ''gemma2-9b-it'') key")
  case (Inl e)
  then show ?thesis by (simp add: try_body_def sa_simps)
next
  case (Inr llm)
  obtain r evs where lc: "load_content sv url = (r, evs)" by (cases "load_content sv url")
  show ?thesis
  proof (cases r)
    case (Inl e)
    with Inr lc show ?thesis by (simp add: try_body_def sa_simps)
  next
    case docs: (Inr docs)
    obtain x evs' where "generate_summary sv llm docs = (x, evs')"
      by (cases "generate_summary sv llm docs")
    with sa_generate_summary [of sv llm docs] Inr lc docs show ?thesis
      by (simp add: try_body_def sa_simps)
  qed
qed

lemma sa_on_click:
  "strategies_attempted (on_click sv key url) =
     (if py_strip key = [] \<or> py_strip url = [] \<or> \<not> validators_url sv url then []
      else strategies_attempted (snd (try_body sv key url)))"
  by (cases "try_body sv key url") (auto simp: on_click_def sa_simps split: option.splits)

text \<open>The strategies a click attempts, in every case.\<close>

lemma sa_on_click_cases:
  "strategies_attempted (on_click sv key url) =
     (if py_strip key = [] \<or> py_strip url = [] \<or> \<not> validators_url sv url then []
      else case ChatGroq sv (S ''gemma2-9b-it'') key of
        Inl e \<Rightarrow> []
      | Inr llm \<Rightarrow>
         (case classify_url url of
            Website \<Rightarrow> []
          | YouTube \<Rightarrow>
             (case extract_video_id url of
                Inr (Some v) \<Rightarrow>
                  if v = [] then []
                  else Primary #
                    (case YoutubeLoader sv url True loader_languages of
                       Inr docs \<Rightarrow> []
                     | Inl e \<Rightarrow>
                        (if transcript_api_installed sv then [Transcript] else []) @
                        (if transcript_api_installed sv \<and>
                            \<not> isl (get_transcript sv v transcript_languages) then []
                         else if yt_dlp_installed sv then [Description] else []))
              | _ \<Rightarrow> [])))"
proof -
  have m1: "fst (method1_transcript_api sv v) = None \<longleftrightarrow>
        \<not> (transcript_api_installed sv \<and> \<not> isl (get_transcript sv v transcript_languages))" for v
    by (simp add: method1_transcript_api_def split: sum.splits py_exception.splits)
  have yt: "strategies_attempted (snd (load_youtube sv url v)) =
      Primary #
        (case YoutubeLoader sv url True loader_languages of
           Inr docs \<Rightarrow> []
         | Inl e \<Rightarrow>
            (if transcript_api_installed sv then [Transcript] else []) @
            (if transcript_api_installed sv \<and>
                \<not> isl (get_transcript sv v transcript_languages) then []
             else if yt_dlp_installed sv then [Description] else []))" for v
    by (simp add: sa_load_youtube sa_get_youtube_transcript sa_method1 sa_method2 m1
        split: sum.splits)
  show ?thesis
    unfolding sa_on_click sa_try_body sa_load_content yt ..
qed

subsection \<open>The summarisation call\<close>

lemma fill_prompt_template:
  "fill_template prompt_template content =
     [10] @ S ''Provide a summary of the following content in 300 words:'' @ [10] @
     S ''Content:'' @ content @ [10, 10]"
  by (simp add: fill_template_def prompt_template_def split_pieces.simps S_def)

lemma cr_load_content: "filter is_chain_run (snd (load_content sv url)) = []"
proof -
  have m1: "filter is_chain_run (snd (method1_transcript_api sv v)) = []" for v
    by (simp add: method1_transcript_api_def split: sum.splits py_exception.splits)
  have m2: "filter is_chain_run (snd (method2_yt_dlp sv v)) = []" for v
    by (simp add: method2_yt_dlp_def Let_def
        split: sum.splits option.splits py_exception.splits)
  have g: "filter is_chain_run (snd (get_youtube_transcript sv v)) = []" for v
    using m1 [of v] m2 [of v]
    by (cases "method1_transcript_api sv v"; cases "method2_yt_dlp sv v")
      (auto simp: get_youtube_transcript_def split: option.splits)
  have y: "filter is_chain_run (snd (load_youtube sv url v)) = []" for v
    using g [of v]
    by (cases "get_youtube_transcript sv v")
      (auto simp: load_youtube_def Let_def split: sum.splits option.splits)
  have w: "filter is_chain_run (snd (load_website sv url)) = []"
    by (simp add: load_website_def split: sum.splits)
  show ?thesis
  proof (cases "classify_url url")
    case Website
    with w show ?thesis by (cases "load_website sv url") (simp add: load_content_def)
  next
    case YouTube
    show ?thesis
    proof (cases "extract_video_id url")
      case (Inl err)
      with YouTube show ?thesis by (simp add: load_content_def)
    next
      case (Inr vid)
      show ?thesis
      proof (cases vid)
        case None
        with YouTube Inr show ?thesis by (simp add: load_content_def)
      next
        case (Some v)
        with YouTube Inr y [of v] show ?thesis
          by (cases "load_youtube sv url v") (simp add: load_content_def)
      qed
    qed
  qed
qed

lemma cr_generate_summary:
  "filter is_chain_run (snd (generate_summary sv llm docs)) =
     (case docs of
        Some (d # ds) \<Rightarrow> [Call_chain_run llm (S ''stuff'') prompt_template (d # ds)]
      | _ \<Rightarrow> [])"
  by (simp add: generate_summary_def split: sum.splits option.splits list.splits)

lemma cr_on_click:
  "filter is_chain_run (on_click sv key url) =
     (if py_strip key = [] \<or> py_strip url = [] \<or> \<not> validators_url sv url then []
      else case ChatGroq sv (S ''gemma2-9b-it'') key of
        Inl e \<Rightarrow> []
      | Inr llm \<Rightarrow>
          (case fst (load_content sv url) of
             Inr (Some (d # ds)) \<Rightarrow> [Call_chain_run llm (S ''stuff'') prompt_template (d # ds)]
           | _ \<Rightarrow> []))"
proof (cases "py_strip key = [] \<or> py_strip url = [] \<or> \<not> validators_url sv url")
  case True
  then show ?thesis by (auto simp: on_click_def)
next
  case valid: False
  show ?thesis
  proof (cases "ChatGroq sv (S ''gemma2-9b-it'') key")
    case (Inl e)
    with valid show ?thesis by (simp add: on_click_def try_body_def)
  next
    case (Inr llm)
    obtain r evs where lc: "load_content sv url = (r, evs)" by (cases "load_content sv url")
    with cr_load_content [of sv url] have evs: "filter is_chain_run evs = []" by simp
    show ?thesis
    proof (cases r)
      case (Inl e)
      with valid Inr lc evs show ?thesis by (simp add: on_click_def try_body_def)
    next
      case docs: (Inr docs)
      obtain x evs' where gs: "generate_summary sv llm docs = (x, evs')"
        by (cases "generate_summary sv llm docs")
      with cr_generate_summary [of sv llm docs]
      have "filter is_chain_run evs' =
              (case docs of
                 Some (d # ds) \<Rightarrow> [Call_chain_run llm (S ''stuff'') prompt_template (d # ds)]
               | _ \<Rightarrow> [])" by simp
      with valid Inr lc evs docs gs show ?thesis
        by (cases x) (simp_all add: on_click_def try_body_def)
    qed
  qed
qed

lemma on_click_summary:
  assumes "py_strip key \<noteq> []" and "py_strip url \<noteq> []" and "validators_url sv url"
    and "ChatGroq sv (S ''gemma2-9b-it'') key = Inr llm"
    and "fst (load_content sv url) = Inr (Some docs)" and "docs \<noteq> []"
    and "chain_run sv llm (S ''stuff'') prompt_template docs = Inr out"
  shows "St_success out \<in> set (on_click sv key url)"
proof -
  obtain evs where "load_content sv url = (Inr (Some docs), evs)"
    using assms(5) by (cases "load_content sv url") simp
  moreover obtain d ds where "docs = d # ds" using assms(6) by (cases docs) auto
  ultimately show ?thesis using assms(1-4,7)
    by (simp add: on_click_def try_body_def generate_summary_def)
qed

subsection \<open>Where the loaded Documents come from\<close>

lemma get_youtube_transcript_cases:
  assumes "fst (get_youtube_transcript sv v) = (Some t, Some m)"
  shows "(m = S ''transcript-api'' \<and> fst (method1_transcript_api sv v) = Some (t, m)) \<or>
         (m = S ''description'' \<and> fst (method1_transcript_api sv v) = None \<and>
          fst (method2_yt_dlp sv v) = Some (t, m))"
proof -
  have m1: "m' = S ''transcript-api''" if "fst (method1_transcript_api sv v) = Some (t', m')"
    for t' m'
    using that
    by (auto simp: method1_transcript_api_def
        split: if_splits sum.splits py_exception.splits)
  have m2: "m' = S ''description''" if "fst (method2_yt_dlp sv v) = Some (t', m')" for t' m'
    using that
    by (auto simp: method2_yt_dlp_def Let_def
        split: if_splits sum.splits option.splits py_exception.splits)
  show ?thesis
  proof (cases "fst (method1_transcript_api sv v)")
    case None
    with assms have "fst (method2_yt_dlp sv v) = Some (t, m)"
      by (cases "method1_transcript_api sv v"; cases "method2_yt_dlp sv v")
        (auto simp: get_youtube_transcript_def split: option.splits)
    with None m2 show ?thesis by blast
  next
    case (Some p)
    with assms have "p = (t, m)"
      by (cases "method1_transcript_api sv v"; cases p)
        (auto simp: get_youtube_transcript_def split: option.splits)
    with Some m1 show ?thesis by blast
  qed
qed

lemma load_youtube_cases:
  assumes "fst (load_youtube sv url v) = Some docs"
  shows "YoutubeLoader sv url True loader_languages = Inr docs \<or>
         ((\<exists>e. YoutubeLoader sv url True loader_languages = Inl e) \<and>
          (\<exists>t m. fst (get_youtube_transcript sv v) = (Some t, Some m) \<and> t \<noteq> [] \<and>
             docs = [\<lparr>page_content = t,
                      metadata = [(S ''source'', PyStr url), (S ''method'', PyStr m)]\<rparr>]))"
proof (cases "YoutubeLoader sv url True loader_languages")
  case (Inr ds)
  with assms show ?thesis by (simp add: load_youtube_def)
next
  case (Inl e)
  obtain tt mm evs where g: "get_youtube_transcript sv v = ((tt, mm), evs)"
    by (cases "get_youtube_transcript sv v") auto
  with assms Inl obtain t where t: "tt = Some t" "t \<noteq> []"
    by (cases tt) (auto simp: load_youtube_def Let_def split: if_splits)
  have "mm \<noteq> None"
  proof
    assume "mm = None"
    with g t show False
      by (cases "method1_transcript_api sv v"; cases "method2_yt_dlp sv v")
        (auto simp: get_youtube_transcript_def split: option.splits)
  qed
  then obtain m where m: "mm = Some m" by auto
  with assms Inl g t have "docs = [\<lparr>page_content = t,
                      metadata = [(S ''source'', PyStr url), (S ''method'', PyStr m)]\<rparr>]"
    by (auto simp: load_youtube_def Let_def SimpleDoc_def)
  with Inl g t m show ?thesis by simp
qed

lemma load_content_cases:
  assumes "fst (load_content sv url) = Inr (Some docs)"
  shows "(classify_url url = Website \<and>
          UnstructuredURLLoader sv [url] False user_agent_headers = Inr docs) \<or>
         (classify_url url = YouTube \<and>
          (\<exists>v. extract_video_id url = Inr (Some v) \<and> v \<noteq> [] \<and>
               fst (load_youtube sv url v) = Some docs))"
proof (cases "classify_url url")
  case Website
  with assms show ?thesis
    by (auto simp: load_content_def load_website_def split: sum.splits)
next
  case YouTube
  show ?thesis
  proof (cases "extract_video_id url")
    case (Inl err)
    with YouTube assms show ?thesis by (simp add: load_content_def)
  next
    case (Inr vid)
    show ?thesis
    proof (cases vid)
      case None
      with YouTube Inr assms show ?thesis by (simp add: load_content_def)
    next
      case (Some v)
      with YouTube Inr assms show ?thesis
        by (cases "load_youtube sv url v") (auto simp: load_content_def split: if_splits)
    qed
  qed
qed

lemma chain_run_docs:
  assumes "Call_chain_run l c t docs \<in> set (on_click sv key url)"
  shows "docs \<noteq> [] \<and> fst (load_content sv url) = Inr (Some docs)"
proof -
  from assms have "Call_chain_run l c t docs \<in> set (filter is_chain_run (on_click sv key url))"
    by simp
  then show ?thesis
    unfolding cr_on_click
    by (auto split: if_splits sum.splits option.splits list.splits)
qed

subsection \<open>A click without a video ID\<close>

lemma youtube_watch_classified:
  assumes "sublist (S ''youtube.com/watch?v='') url"
  shows "classify_url url = YouTube"
proof -
  have "S ''youtube.com/watch?v='' = S ''youtube.com'' @ S ''/watch?v=''"
    by (simp add: S_def)
  moreover from assms obtain ps ss where "url = ps @ S ''youtube.com/watch?v='' @ ss"
    by (auto simp: sublist_def)
  ultimately have "url = ps @ S ''youtube.com'' @ (S ''/watch?v='' @ ss)" by simp
  then have "sublist (S ''youtube.com'') url" unfolding sublist_def by blast
  then show ?thesis by (simp add: classify_url_def is_youtube_url_def py_in_sublist)
qed

lemma on_click_no_video_id:
  assumes "py_strip key \<noteq> []" and "py_strip url \<noteq> []" and "validators_url sv url"
    and "ChatGroq sv (S ''gemma2-9b-it'') key = Inr llm"
    and "classify_url url = YouTube"
    and "extract_video_id url = Inr None \<or> extract_video_id url = Inr (Some [])"
  shows "on_click sv key url =
           [Call_ChatGroq (S ''gemma2-9b-it'') key,
            St_info ([128260] @ S '' Loading YouTube video...''),
            St_error ([10060] @ S '' Could not extract video ID from URL''),
            St_error ([10060] @ S '' Could not load any content from the URL'')]"
  using assms
  by (auto simp: on_click_def try_body_def load_content_def generate_summary_def Let_def)

text \<open>Unfolding the handler and everything it calls runs it in a concrete world.\<close>

lemmas handler_run =
  on_click_def try_body_def load_content_def classify_url_def is_youtube_url_def
  load_youtube_def load_website_def generate_summary_def get_youtube_transcript_def
  method1_transcript_api_def method2_yt_dlp_def SimpleDoc_def dict_get_def
  transcript_languages_def loader_languages_def Let_def py_strip_def isspace_def

section \<open>C7: the URL classifier\<close>

text \<open>
  C7: for every URL string the classifier answers YouTube if and only if the string
  contains \<open>youtube.com\<close> or \<open>youtu.be\<close>, and Website otherwise; there is no third outcome.
  The classifier is a function of the string alone: it has no access to the services
  and no way to raise.
\<close>

theorem classify_url_exhaustive:
  "(classify_url url = YouTube \<longleftrightarrow>
      sublist (S ''youtube.com'') url \<or> sublist (S ''youtu.be'') url) \<and>
   (classify_url url = Website \<longleftrightarrow>
      \<not> (sublist (S ''youtube.com'') url \<or> sublist (S ''youtu.be'') url)) \<and>
   (classify_url url = YouTube \<or> classify_url url = Website)"
  by (simp add: classify_url_def is_youtube_url_def py_in_sublist)

theorem classify_url_exhaustive_witness:
  "classify_url (S ''https://youtu.be/UyyjU8fzEYU'') = YouTube \<and>
   classify_url (S ''https://en.wikipedia.org/wiki/Artificial_intelligence'') = Website"
  using classify_url_exhaustive [of "S ''https://youtu.be/UyyjU8fzEYU''"]
    classify_url_exhaustive [of "S ''https://en.wikipedia.org/wiki/Artificial_intelligence''"]
  by (simp add: S_def sublist_code(3))

section \<open>C5: the outermost exception handler\<close>




section \<open>C4: the description fallback\<close>

text \<open>
  C4: the description fallback is reached when the transcript service did not return.
  When the downloader then returns a description, the fallback succeeds if and only if
  the description is longer than 100 characters. On success the helper returns the first
  \<open>min(length, 2000)\<close> characters, at most 2000, with the method \<open>description\<close>, and the
  handler, whose primary loader has raised, acquires one Document with that content and
  that method. For a description of at most 100 characters the helper returns
  \<open>(None, None)\<close> and no Document is acquired.
\<close>

theorem description_fallback_threshold:
  assumes "yt_dlp_installed sv"
    and "extract_info sv (S ''https://youtube.com/watch?v='' @ video_id) False = Inr (Some info)"
    and "map_of info (S ''description'') = Some (PyStr d)"
    and "\<not> transcript_api_installed sv \<or> isl (get_transcript sv video_id transcript_languages)"
  shows "fst (method2_yt_dlp sv video_id) =
           (if 100 < length d then Some (take 2000 d, S ''description'') else None) \<and>
         fst (get_youtube_transcript sv video_id) =
           (if 100 < length d then (Some (take 2000 d), Some (S ''description''))
            else (None, None)) \<and>
         length (take 2000 d) = min (length d) 2000 \<and> length (take 2000 d) \<le> 2000 \<and>
         (\<forall>url e. YoutubeLoader sv url True loader_languages = Inl e \<longrightarrow>
            fst (load_youtube sv url video_id) =
              (if 100 < length d
               then Some [\<lparr>page_content = take 2000 d,
                           metadata = [(S ''source'', PyStr url),
                                       (S ''method'', PyStr (S ''description''))]\<rparr>]
               else None)) \<and>
         (\<forall>url e. classify_url url = YouTube \<and> extract_video_id url = Inr (Some video_id) \<and>
            video_id \<noteq> [] \<and> YoutubeLoader sv url True loader_languages = Inl e \<longrightarrow>
            fst (load_content sv url) =
              Inr (if 100 < length d
                   then Some [\<lparr>page_content = take 2000 d,
                               metadata = [(S ''source'', PyStr url),
                                           (S ''method'', PyStr (S ''description''))]\<rparr>]
                   else None))"
proof -
  have m2: "fst (method2_yt_dlp sv video_id) =
           (if 100 < length d then Some (take 2000 d, S ''description'') else None)"
    using assms(1-3) by (rule method2_description)
  have m1: "fst (method1_transcript_api sv video_id) = None"
    using assms(4) by (simp add: method1_not_returned)
  have g: "fst (get_youtube_transcript sv video_id) =
           (if 100 < length d then (Some (take 2000 d), Some (S ''description''))
            else (None, None))"
    using m1 m2 by (simp add: get_youtube_transcript_second get_youtube_transcript_none)
  have ly: "fst (load_youtube sv url video_id) =
              (if 100 < length d
               then Some [\<lparr>page_content = take 2000 d,
                           metadata = [(S ''source'', PyStr url),
                                       (S ''method'', PyStr (S ''description''))]\<rparr>]
               else None)"
    if "YoutubeLoader sv url True loader_languages = Inl e" for url e
  proof (cases "100 < length d")
    case True
    then have "take 2000 d \<noteq> []" by auto
    with True g load_youtube_fallback [OF that, of video_id "take 2000 d" "S ''description''"]
    show ?thesis by simp
  next
    case False
    with g load_youtube_failed [OF that, of video_id] show ?thesis by simp
  qed
  have lc: "fst (load_content sv url) =
              Inr (if 100 < length d
                   then Some [\<lparr>page_content = take 2000 d,
                               metadata = [(S ''source'', PyStr url),
                                           (S ''method'', PyStr (S ''description''))]\<rparr>]
                   else None)"
    if "classify_url url = YouTube" "extract_video_id url = Inr (Some video_id)"
      "video_id \<noteq> []" "YoutubeLoader sv url True loader_languages = Inl e" for url e
    using that ly [of url e] by (simp add: load_content_youtube)
  from m2 g ly lc show ?thesis by auto
qed

theorem description_fallback_threshold_witness:
  "fst (load_content (example_services\<lparr>transcript_api_installed := False\<rparr>)
          (S ''https://www.youtube.com/watch?v=UyyjU8fzEYU'')) =
     Inr (Some [\<lparr>page_content = replicate 150 120,
                 metadata = [(S ''source'', PyStr (S ''https://www.youtube.com/watch?v=UyyjU8fzEYU'')),
                             (S ''method'', PyStr (S ''description''))]\<rparr>]) \<and>
   fst (get_youtube_transcript
          (example_services\<lparr>transcript_api_installed := False, extract_info :=
             \<lambda>u d. Inr (Some [(S ''description'', PyStr (replicate 2500 120))])\<rparr>)
          (S ''UyyjU8fzEYU'')) = (Some (replicate 2000 120), Some (S ''description'')) \<and>
   fst (get_youtube_transcript
          (example_services\<lparr>transcript_api_installed := False, extract_info :=
             \<lambda>u d. Inr (Some [(S ''description'', PyStr (replicate 100 120))])\<rparr>)
          (S ''UyyjU8fzEYU'')) = (None, None) \<and>
   fst (load_content
          (example_services\<lparr>transcript_api_installed := False, extract_info :=
             \<lambda>u d. Inr (Some [(S ''description'', PyStr (replicate 100 120))])\<rparr>)
          (S ''https://www.youtube.com/watch?v=UyyjU8fzEYU'')) = Inr None"
proof -
  let ?u = "S ''https://www.youtube.com/watch?v=UyyjU8fzEYU''"
  let ?v = "S ''UyyjU8fzEYU''"
  let ?mid = "example_services\<lparr>transcript_api_installed := False\<rparr>"
  let ?long = "example_services\<lparr>transcript_api_installed := False, extract_info :=
             \<lambda>u d. Inr (Some [(S ''description'', PyStr (replicate 2500 120))])\<rparr>"
  let ?short = "example_services\<lparr>transcript_api_installed := False, extract_info :=
             \<lambda>u d. Inr (Some [(S ''description'', PyStr (replicate 100 120))])\<rparr>"
  have c: "classify_url ?u = YouTube"
    by (simp add: classify_url_def is_youtube_url_def py_in_def S_def)
  have x: "extract_video_id ?u = Inr (Some ?v)" by (simp add: extract_run)
  have v: "?v \<noteq> []" by (simp add: S_def)
  have 1: "fst (load_content ?mid ?u) =
     Inr (Some [\<lparr>page_content = replicate 150 120,
                 metadata = [(S ''source'', PyStr ?u), (S ''method'', PyStr (S ''description''))]\<rparr>])"
    using description_fallback_threshold [of ?mid ?v
        "[(S ''description'', PyStr (replicate 150 120))]" "replicate 150 120"] c x v
    by (simp add: example_services_def)
  have 2: "fst (get_youtube_transcript ?long ?v) =
             (Some (replicate 2000 120), Some (S ''description''))"
    using description_fallback_threshold [of ?long ?v
        "[(S ''description'', PyStr (replicate 2500 120))]" "replicate 2500 120"]
    by (simp add: example_services_def)
  have 3: "fst (get_youtube_transcript ?short ?v) = (None, None) \<and>
           fst (load_content ?short ?u) = Inr None"
    using description_fallback_threshold [of ?short ?v
        "[(S ''description'', PyStr (replicate 100 120))]" "replicate 100 120"] c x v
    by (simp add: example_services_def)
  from 1 2 3 show ?thesis by simp
qed

section \<open>C3: the Document of the transcript service\<close>

text \<open>
  C3, as stated, says that whenever the primary loader fails and the transcript service
  returns its segments, a Document with the joined text is acquired. The handler builds
  the Document only \<open>if transcript_text\<close>: when the service returns no segment (or a
  single segment with empty text) the joined text is empty and no Document is acquired.
\<close>

theorem transcript_document_counterexample:
  "YoutubeLoader (example_services\<lparr>get_transcript := \<lambda>v l. Inr []\<rparr>)
     (S ''https://www.youtube.com/watch?v=UyyjU8fzEYU'') True loader_languages =
     Inl (S ''unavailable'') \<and>
   get_transcript (example_services\<lparr>get_transcript := \<lambda>v l. Inr []\<rparr>)
     (S ''UyyjU8fzEYU'') transcript_languages = Inr [] \<and>
   fst (load_content (example_services\<lparr>get_transcript := \<lambda>v l. Inr []\<rparr>)
          (S ''https://www.youtube.com/watch?v=UyyjU8fzEYU'')) = Inr None"
  by (simp add: handler_run extract_run example_services_def)

text \<open>
  C3 (amended): for a YouTube URL with a video ID, when the primary loader raises and the
  transcript service returns segments whose joined text is not empty, exactly one
  Document is acquired; its content is the text of the first segment followed, for each
  further segment in the order returned, by one space and that segment's text, and its
  metadata is the source (the input URL) and the method \<open>transcript-api\<close>. For the
  segments \<open>Hello\<close> and \<open>world\<close> the content is \<open>Hello world\<close>: see the witness.
\<close>

theorem transcript_document:
  assumes "classify_url url = YouTube" and "extract_video_id url = Inr (Some v)" and "v \<noteq> []"
    and "YoutubeLoader sv url True loader_languages = Inl e"
    and "transcript_api_installed sv"
    and "get_transcript sv v transcript_languages = Inr segs"
    and "content =
           (case map seg_text segs of
              [] \<Rightarrow> []
            | t # ts \<Rightarrow> t @ concat (map (\<lambda>x. S '' '' @ x) ts))"
    and "content \<noteq> []"
  shows "fst (load_content sv url) =
           Inr (Some [\<lparr>page_content = content,
                       metadata = [(S ''source'', PyStr url),
                                   (S ''method'', PyStr (S ''transcript-api''))]\<rparr>])"
proof -
  have "py_join (S '' '') (map seg_text segs) = content"
    unfolding assms(7) by (rule py_join_concat)
  with assms(1-6,8) show ?thesis
    by (simp add: load_content_youtube load_youtube_fallback get_youtube_transcript_first
        method1_returned)
qed

theorem transcript_document_witness:
  "classify_url (S ''https://www.youtube.com/watch?v=UyyjU8fzEYU'') = YouTube \<and>
   extract_video_id (S ''https://www.youtube.com/watch?v=UyyjU8fzEYU'') =
     Inr (Some (S ''UyyjU8fzEYU'')) \<and>
   fst (load_content example_services (S ''https://www.youtube.com/watch?v=UyyjU8fzEYU'')) =
     Inr (Some [\<lparr>page_content = S ''Hello world'',
                 metadata = [(S ''source'', PyStr (S ''https://www.youtube.com/watch?v=UyyjU8fzEYU'')),
                             (S ''method'', PyStr (S ''transcript-api''))]\<rparr>])"
proof -
  let ?u = "S ''https://www.youtube.com/watch?v=UyyjU8fzEYU''"
  let ?segs = "[\<lparr>seg_text = S ''Hello'', seg_start = 0::nat, seg_duration = 1\<rparr>,
                \<lparr>seg_text = S ''world'', seg_start = 1, seg_duration = 1\<rparr>]"
  have 1: "classify_url ?u = YouTube"
    by (simp add: classify_url_def is_youtube_url_def py_in_def S_def)
  have 2: "extract_video_id ?u = Inr (Some (S ''UyyjU8fzEYU''))"
    by (simp add: extract_run)
  have 3: "S ''UyyjU8fzEYU'' \<noteq> []" by (simp add: S_def)
  have 4: "YoutubeLoader example_services ?u True loader_languages = Inl (S ''unavailable'')"
    by (simp add: example_services_def)
  have 5: "transcript_api_installed example_services" by (simp add: example_services_def)
  have 6: "get_transcript example_services (S ''UyyjU8fzEYU'') transcript_languages = Inr ?segs"
    by (simp add: example_services_def)
  have 7: "S ''Hello world'' =
           (case map seg_text ?segs of
              [] \<Rightarrow> []
            | t # ts \<Rightarrow> t @ concat (map (\<lambda>x. S '' '' @ x) ts))"
    by (simp add: S_def)
  have 8: "S ''Hello world'' \<noteq> []" by (simp add: S_def)
  from transcript_document [OF 1 2 3 4 5 6 7 8] 1 2 show ?thesis by simp
qed

section \<open>C2: the order of the acquisition strategies\<close>

text \<open>
  C2: the strategies a click attempts are, in this order and each at most once, the
  primary loader, the transcript service and the description fallback (a strategy whose
  package cannot be imported makes no call). Whenever the primary loader succeeds for
  the URL, neither the transcript service nor the description fallback is invoked;
  whenever the transcript service returns, the description fallback is not invoked.
  For a valid click on a YouTube URL with a video ID the primary loader is always
  attempted first, and each later strategy exactly when all earlier ones failed.
\<close>

theorem strategy_order:
  "subseq (strategies_attempted (on_click sv key url)) [Primary, Transcript, Description] \<and>
   (\<forall>docs. YoutubeLoader sv url True loader_languages = Inr docs \<longrightarrow>
      Transcript \<notin> set (strategies_attempted (on_click sv key url)) \<and>
      Description \<notin> set (strategies_attempted (on_click sv key url))) \<and>
   (\<forall>v segs. extract_video_id url = Inr (Some v) \<and> transcript_api_installed sv \<and>
      get_transcript sv v transcript_languages = Inr segs \<longrightarrow>
      Description \<notin> set (strategies_attempted (on_click sv key url))) \<and>
   (\<forall>v llm. py_strip key \<noteq> [] \<and> py_strip url \<noteq> [] \<and> validators_url sv url \<and>
      ChatGroq sv (S ''gemma2-9b-it'') key = Inr llm \<and> classify_url url = YouTube \<and>
      extract_video_id url = Inr (Some v) \<and> v \<noteq> [] \<longrightarrow>
      strategies_attempted (on_click sv key url) =
        Primary #
          (case YoutubeLoader sv url True loader_languages of
             Inr docs \<Rightarrow> []
           | Inl e \<Rightarrow>
              (if transcript_api_installed sv then [Transcript] else []) @
              (if transcript_api_installed sv \<and>
                  \<not> isl (get_transcript sv v transcript_languages) then []
               else if yt_dlp_installed sv then [Description] else [])))"
  unfolding sa_on_click_cases
  by (auto split: sum.splits url_kind.splits option.splits)

theorem strategy_order_witness:
  "strategies_attempted
     (on_click example_services (S ''gsk_1'') (S ''https://www.youtube.com/watch?v=UyyjU8fzEYU'')) =
     [Primary, Transcript] \<and>
   strategies_attempted
     (on_click (example_services\<lparr>YoutubeLoader := \<lambda>u i l. Inr []\<rparr>) (S ''gsk_1'')
        (S ''https://www.youtube.com/watch?v=UyyjU8fzEYU'')) = [Primary] \<and>
   strategies_attempted
     (on_click (example_services\<lparr>transcript_api_installed := False\<rparr>) (S ''gsk_1'')
        (S ''https://www.youtube.com/watch?v=UyyjU8fzEYU'')) = [Primary, Description]"
proof -
  let ?u = "S ''https://www.youtube.com/watch?v=UyyjU8fzEYU''"
  let ?k = "S ''gsk_1''"
  let ?v = "S ''UyyjU8fzEYU''"
  let ?sv2 = "example_services\<lparr>YoutubeLoader := \<lambda>u i l. Inr []\<rparr>"
  let ?sv3 = "example_services\<lparr>transcript_api_installed := False\<rparr>"
  have k: "py_strip ?k \<noteq> []" and u: "py_strip ?u \<noteq> []"
    by (simp_all add: py_strip_def isspace_def S_def)
  have c: "classify_url ?u = YouTube"
    by (simp add: classify_url_def is_youtube_url_def py_in_def S_def)
  have x: "extract_video_id ?u = Inr (Some ?v)" by (simp add: extract_run)
  have v: "?v \<noteq> []" by (simp add: S_def)
  have "strategies_attempted (on_click example_services ?k ?u) = [Primary, Transcript]"
    using strategy_order [of example_services ?k ?u, THEN conjunct2, THEN conjunct2,
        THEN conjunct2, rule_format, where v = ?v and llm = "()"] k u c x v
    by (simp add: example_services_def)
  moreover have "strategies_attempted (on_click ?sv2 ?k ?u) = [Primary]"
    using strategy_order [of ?sv2 ?k ?u, THEN conjunct2, THEN conjunct2,
        THEN conjunct2, rule_format, where v = ?v and llm = "()"] k u c x v
    by (simp add: example_services_def)
  moreover have "strategies_attempted (on_click ?sv3 ?k ?u) = [Primary, Description]"
    using strategy_order [of ?sv3 ?k ?u, THEN conjunct2, THEN conjunct2,
        THEN conjunct2, rule_format, where v = ?v and llm = "()"] k u c x v
    by (simp add: example_services_def)
  ultimately show ?thesis by simp
qed

section \<open>C6: the prompt and the summarisation call\<close>

text \<open>
  C6, as stated, says that the prompt is exactly the template
  \<open>Provide a summary of the following content in 300 words:\nContent:{text}\<close> with the
  content substituted. The template of the program is a triple-quoted literal that
  starts with a line break and ends with two, so the filled prompt has a line break
  before \<open>Provide\<close> and two after the content.
\<close>

theorem prompt_template_counterexample:
  "prompt_template \<noteq> spec_template \<and>
   fill_template spec_template (S ''abc'') =
     S ''Provide a summary of the following content in 300 words:'' @ [10] @ S ''Content:abc'' \<and>
   fill_template prompt_template (S ''abc'') \<noteq> fill_template spec_template (S ''abc'')"
  by (simp add: fill_template_def prompt_template_def spec_template_def split_pieces.simps S_def)

text \<open>
  C6 (amended): the template handed to the summarisation chain is a line break, then
  \<open>Provide a summary of the following content in 300 words:\nContent:{text}\<close>, then two
  line breaks; filling it puts the content in the place of \<open>{text}\<close> and keeps those line
  breaks. A valid click that has loaded a non-empty list of Documents creates the client
  for the model \<open>gemma2-9b-it\<close> first, makes exactly one summarisation call, with the
  chain type \<open>stuff\<close>, this template and all loaded Documents at once, and shows the text
  that call returns, unchanged, in a success banner.
\<close>

theorem summarize_call:
  assumes "py_strip key \<noteq> []" and "py_strip url \<noteq> []" and "validators_url sv url"
    and "ChatGroq sv (S ''gemma2-9b-it'') key = Inr llm"
    and "fst (load_content sv url) = Inr (Some docs)" and "docs \<noteq> []"
  shows "prompt_template =
           [10] @ S ''Provide a summary of the following content in 300 words:'' @ [10] @
           S ''Content:{text}'' @ [10, 10] \<and>
         fill_template prompt_template content =
           [10] @ S ''Provide a summary of the following content in 300 words:'' @ [10] @
           S ''Content:'' @ content @ [10, 10] \<and>
         hd (on_click sv key url) = Call_ChatGroq (S ''gemma2-9b-it'') key \<and>
         filter is_chain_run (on_click sv key url) =
           [Call_chain_run llm (S ''stuff'') prompt_template docs] \<and>
         (\<forall>out. chain_run sv llm (S ''stuff'') prompt_template docs = Inr out \<longrightarrow>
            St_success out \<in> set (on_click sv key url))"
proof -
  obtain d ds where "docs = d # ds" using assms(6) by (cases docs) auto
  with assms have a: "filter is_chain_run (on_click sv key url) =
           [Call_chain_run llm (S ''stuff'') prompt_template docs]"
    by (simp add: cr_on_click)
  have b: "hd (on_click sv key url) = Call_ChatGroq (S ''gemma2-9b-it'') key"
    using assms(1-4)
    by (cases "load_content sv url"; cases "fst (load_content sv url)";
        cases "generate_summary sv llm (projr (fst (load_content sv url)))";
        cases "fst (generate_summary sv llm (projr (fst (load_content sv url))))")
      (simp_all add: on_click_def try_body_def)
  have c: "\<forall>out. chain_run sv llm (S ''stuff'') prompt_template docs = Inr out \<longrightarrow>
            St_success out \<in> set (on_click sv key url)"
    using assms by (simp add: on_click_summary)
  have d: "prompt_template =
           [10] @ S ''Provide a summary of the following content in 300 words:'' @ [10] @
           S ''Content:{text}'' @ [10, 10]"
    by (simp add: prompt_template_def)
  from a b c d fill_prompt_template [of content] show ?thesis by blast
qed

theorem summarize_call_witness:
  "filter is_chain_run
     (on_click example_services (S ''gsk_1'') (S ''https://www.youtube.com/watch?v=UyyjU8fzEYU'')) =
     [Call_chain_run () (S ''stuff'') prompt_template
        [\<lparr>page_content = S ''Hello world'',
          metadata = [(S ''source'', PyStr (S ''https://www.youtube.com/watch?v=UyyjU8fzEYU'')),
                      (S ''method'', PyStr (S ''transcript-api''))]\<rparr>]] \<and>
   St_success (S ''summary'') \<in>
     set (on_click example_services (S ''gsk_1'') (S ''https://www.youtube.com/watch?v=UyyjU8fzEYU'')) \<and>
   fill_template prompt_template (S ''Hello world'') =
     [10] @ S ''Provide a summary of the following content in 300 words:'' @ [10] @
     S ''Content:Hello world'' @ [10, 10]"
proof -
  let ?u = "S ''https://www.youtube.com/watch?v=UyyjU8fzEYU''"
  let ?k = "S ''gsk_1''"
  let ?docs = "[\<lparr>page_content = S ''Hello world'',
          metadata = [(S ''source'', PyStr ?u), (S ''method'', PyStr (S ''transcript-api''))]\<rparr>]"
  have k: "py_strip ?k \<noteq> []" and u: "py_strip ?u \<noteq> []"
    by (simp_all add: py_strip_def isspace_def S_def)
  have v: "validators_url example_services ?u" by (simp add: example_services_def)
  have g: "ChatGroq example_services (S ''gemma2-9b-it'') ?k = Inr ()"
    by (simp add: example_services_def)
  have l: "fst (load_content example_services ?u) = Inr (Some ?docs)"
    by (simp add: handler_run extract_run example_services_def)
  have d: "?docs \<noteq> []" by simp
  have r: "chain_run example_services () (S ''stuff'') prompt_template ?docs = Inr (S ''summary'')"
    by (simp add: example_services_def)
  from summarize_call [OF k u v g l d, of "S ''Hello world''"] r show ?thesis
    by (simp add: S_def)
qed

section \<open>C8: the content of the Documents that reach the Summarizer\<close>

text \<open>
  C8, as stated, says that on every path, the primary loader and the website loader
  included, a Document passed to the Summarizer has non-empty content. The handler
  tests \<open>docs and len(docs) > 0\<close>, that the list is non-empty, and never looks at the
  content of a Document a loader returned: when the website loader returns one
  Document with empty content, that Document is summarised.
\<close>

theorem summarizer_empty_content_counterexample:
  "Call_chain_run () (S ''stuff'') prompt_template [\<lparr>page_content = [], metadata = []\<rparr>] \<in>
     set (on_click
            (example_services\<lparr>UnstructuredURLLoader :=
               \<lambda>us v h. Inr [\<lparr>page_content = [], metadata = []\<rparr>]\<rparr>)
            (S ''gsk_1'') (S ''https://example.org/''))"
  by (simp add: handler_run example_services_def py_in_def S_def)

text \<open>
  C8 (amended): every list of Documents passed to the Summarizer is non-empty. On the
  transcript-service and description-fallback paths it is a single Document whose
  content is non-empty; on the primary-loader and website paths it is exactly the list
  the loader returned, whose contents the handler does not inspect.
\<close>

theorem summarizer_input:
  assumes "Call_chain_run l c t docs \<in> set (on_click sv key url)"
  shows "docs \<noteq> [] \<and>
         (YoutubeLoader sv url True loader_languages = Inr docs \<or>
          UnstructuredURLLoader sv [url] False user_agent_headers = Inr docs \<or>
          (\<exists>d. docs = [d] \<and> page_content d \<noteq> []))"
proof -
  from chain_run_docs [OF assms]
  have ne: "docs \<noteq> []" and lc: "fst (load_content sv url) = Inr (Some docs)" by simp_all
  from load_content_cases [OF lc] load_youtube_cases [of sv url _ docs] ne show ?thesis
    by fastforce
qed

theorem summarizer_input_witness:
  "Call_chain_run () (S ''stuff'') prompt_template
     [\<lparr>page_content = S ''Hello world'',
       metadata = [(S ''source'', PyStr (S ''https://www.youtube.com/watch?v=UyyjU8fzEYU'')),
                   (S ''method'', PyStr (S ''transcript-api''))]\<rparr>] \<in>
     set (on_click example_services (S ''gsk_1'')
            (S ''https://www.youtube.com/watch?v=UyyjU8fzEYU'')) \<and>
   S ''Hello world'' \<noteq> [] \<and>
   YoutubeLoader example_services (S ''https://www.youtube.com/watch?v=UyyjU8fzEYU'') True
     loader_languages = Inl (S ''unavailable'')"
proof -
  let ?u = "S ''https://www.youtube.com/watch?v=UyyjU8fzEYU''"
  let ?d = "\<lparr>page_content = S ''Hello world'',
       metadata = [(S ''source'', PyStr ?u), (S ''method'', PyStr (S ''transcript-api''))]\<rparr>"
  have m: "Call_chain_run () (S ''stuff'') prompt_template [?d] \<in>
     set (on_click example_services (S ''gsk_1'') ?u)"
    by (simp add: handler_run extract_run example_services_def)
  from summarizer_input [OF m] m show ?thesis
    by (simp add: example_services_def S_def)
qed

section \<open>C9: the method recorded in the metadata\<close>

text \<open>
  C9, as stated, says that on every success path, the primary loader and the website
  path included, the metadata records the strategy that succeeded. The handler writes
  a \<open>method\<close> entry only into the \<open>SimpleDoc\<close> of the two fallback strategies; Documents of
  the primary loader and of the website loader keep the metadata the loader gave them.
  Below, the primary loader succeeds and the metadata of the acquired Document has no
  \<open>method\<close> entry.
\<close>

theorem acquired_method_counterexample:
  "fst (load_content
          (example_services\<lparr>YoutubeLoader :=
             \<lambda>u i l. Inr [\<lparr>page_content = S ''spoken words'',
                            metadata = [(S ''source'', PyStr (S ''UyyjU8fzEYU''))]\<rparr>]\<rparr>)
          (S ''https://www.youtube.com/watch?v=UyyjU8fzEYU'')) =
     Inr (Some [\<lparr>page_content = S ''spoken words'',
                 metadata = [(S ''source'', PyStr (S ''UyyjU8fzEYU''))]\<rparr>]) \<and>
   map_of [(S ''source'', PyStr (S ''UyyjU8fzEYU''))] (S ''method'') = None"
  by (simp add: handler_run extract_run example_services_def)

text \<open>
  C9 (amended): every Document the handler builds itself has exactly the metadata
  \<open>source\<close> (the input URL) and \<open>method\<close>, and the method names the one strategy that
  succeeded: \<open>transcript-api\<close> when the transcript service returned, \<open>description\<close> when
  the transcript method failed and the description fallback succeeded. On the
  primary-loader and website paths the acquired Documents are the loader's, unchanged.
\<close>

theorem acquired_method:
  assumes "fst (load_content sv url) = Inr (Some docs)"
  shows "YoutubeLoader sv url True loader_languages = Inr docs \<or>
         UnstructuredURLLoader sv [url] False user_agent_headers = Inr docs \<or>
         (\<exists>v t m. extract_video_id url = Inr (Some v) \<and>
            docs = [\<lparr>page_content = t,
                     metadata = [(S ''source'', PyStr url), (S ''method'', PyStr m)]\<rparr>] \<and>
            ((m = S ''transcript-api'' \<and> fst (method1_transcript_api sv v) = Some (t, m)) \<or>
             (m = S ''description'' \<and> fst (method1_transcript_api sv v) = None \<and>
              fst (method2_yt_dlp sv v) = Some (t, m))))"
proof -
  from load_content_cases [OF assms] show ?thesis
  proof
    assume "classify_url url = Website \<and>
          UnstructuredURLLoader sv [url] False user_agent_headers = Inr docs"
    then show ?thesis by simp
  next
    assume "classify_url url = YouTube \<and>
          (\<exists>v. extract_video_id url = Inr (Some v) \<and> v \<noteq> [] \<and>
               fst (load_youtube sv url v) = Some docs)"
    then obtain v where v: "extract_video_id url = Inr (Some v)"
      and ly: "fst (load_youtube sv url v) = Some docs" by blast
    from load_youtube_cases [OF ly] show ?thesis
    proof
      assume "YoutubeLoader sv url True loader_languages = Inr docs"
      then show ?thesis by simp
    next
      assume "(\<exists>e. YoutubeLoader sv url True loader_languages = Inl e) \<and>
          (\<exists>t m. fst (get_youtube_transcript sv v) = (Some t, Some m) \<and> t \<noteq> [] \<and>
             docs = [\<lparr>page_content = t,
                      metadata = [(S ''source'', PyStr url), (S ''method'', PyStr m)]\<rparr>])"
      then obtain t m where g: "fst (get_youtube_transcript sv v) = (Some t, Some m)"
        and d: "docs = [\<lparr>page_content = t,
                      metadata = [(S ''source'', PyStr url), (S ''method'', PyStr m)]\<rparr>]"
        by blast
      from get_youtube_transcript_cases [OF g] v d show ?thesis by blast
    qed
  qed
qed

theorem acquired_method_witness:
  "fst (load_content (example_services\<lparr>transcript_api_installed := False\<rparr>)
          (S ''https://www.youtube.com/watch?v=UyyjU8fzEYU'')) =
     Inr (Some [\<lparr>page_content = replicate 150 120,
                 metadata = [(S ''source'', PyStr (S ''https://www.youtube.com/watch?v=UyyjU8fzEYU'')),
                             (S ''method'', PyStr (S ''description''))]\<rparr>]) \<and>
   fst (method1_transcript_api (example_services\<lparr>transcript_api_installed := False\<rparr>)
          (S ''UyyjU8fzEYU'')) = None \<and>
   fst (method2_yt_dlp (example_services\<lparr>transcript_api_installed := False\<rparr>)
          (S ''UyyjU8fzEYU'')) = Some (replicate 150 120, S ''description'')"
proof -
  let ?u = "S ''https://www.youtube.com/watch?v=UyyjU8fzEYU''"
  let ?sv = "example_services\<lparr>transcript_api_installed := False\<rparr>"
  let ?docs = "[\<lparr>page_content = replicate 150 120,
                 metadata = [(S ''source'', PyStr ?u), (S ''method'', PyStr (S ''description''))]\<rparr>]"
  have l: "fst (load_content ?sv ?u) = Inr (Some ?docs)"
    by (simp add: handler_run extract_run example_services_def)
  have x: "extract_video_id ?u = Inr (Some (S ''UyyjU8fzEYU''))" by (simp add: extract_run)
  have y: "YoutubeLoader ?sv ?u True loader_languages \<noteq> Inr ?docs"
    and w: "UnstructuredURLLoader ?sv [?u] False user_agent_headers \<noteq> Inr ?docs"
    by (simp_all add: example_services_def)
  have n: "S ''description'' \<noteq> S ''transcript-api''" by (simp add: S_def)
  from acquired_method [OF l] x y w n l show ?thesis by auto
qed

section \<open>C10: the empty video ID\<close>

text \<open>
  C10, as stated, says that the extractor returns the empty string for any input whose
  text after the first \<open>watch?v=\<close> is empty. The \<open>watch?v=\<close> branch is taken only when the
  URL contains \<open>youtube.com/watch?v=\<close>: the URL below ends in \<open>watch?v=\<close> and is a YouTube
  URL, but it goes through the \<open>youtu.be/\<close> branch, the extractor returns \<open>watch\<close>, and the
  strategies are attempted with that ID.
\<close>

theorem empty_video_id_counterexample:
  "substring_after (S ''watch?v='') (S ''https://youtu.be/watch?v='') = [] \<and>
   extract_video_id (S ''https://youtu.be/watch?v='') = Inr (Some (S ''watch'')) \<and>
   extract_video_id (S ''https://youtu.be/watch?v='') \<noteq> Inr (Some []) \<and>
   strategies_attempted
     (on_click example_services (S ''gsk_1'') (S ''https://youtu.be/watch?v='')) =
     [Primary, Transcript]"
  by (simp add: handler_run extract_run example_services_def strategies_attempted_def)

text \<open>
  C10 (amended): for any input that contains \<open>youtube.com/watch?v=\<close> and whose text after
  the first \<open>watch?v=\<close> is empty, the extractor returns the empty string rather than
  nothing; and a valid click on a YouTube URL treats the empty ID exactly as a missing
  one: the extraction-failure error is shown, followed by the could-not-load error, no
  acquisition strategy is attempted, and the Summarizer is not invoked.
\<close>

theorem empty_video_id:
  "(sublist (S ''youtube.com/watch?v='') url \<and> substring_after (S ''watch?v='') url = [] \<longrightarrow>
      extract_video_id url = Inr (Some []) \<and> classify_url url = YouTube) \<and>
   (py_strip key \<noteq> [] \<and> py_strip url \<noteq> [] \<and> validators_url sv url \<and>
    ChatGroq sv (S ''gemma2-9b-it'') key = Inr llm \<and> classify_url url = YouTube \<and>
    (extract_video_id url = Inr None \<or> extract_video_id url = Inr (Some [])) \<longrightarrow>
      on_click sv key url =
        [Call_ChatGroq (S ''gemma2-9b-it'') key,
         St_info ([128260] @ S '' Loading YouTube video...''),
         St_error ([10060] @ S '' Could not extract video ID from URL''),
         St_error ([10060] @ S '' Could not load any content from the URL'')] \<and>
      strategies_attempted (on_click sv key url) = [] \<and>
      filter is_chain_run (on_click sv key url) = [])"
proof -
  have "extract_video_id url = Inr (Some [])"
    if "sublist (S ''youtube.com/watch?v='') url" "substring_after (S ''watch?v='') url = []"
    using that by (simp add: extract_video_id_eq video_id_pieces_def)
  then show ?thesis
    using on_click_no_video_id [of key url sv llm]
    by (auto simp: youtube_watch_classified sa_simps)
qed

theorem empty_video_id_witness:
  "extract_video_id (S ''https://www.youtube.com/watch?v='') = Inr (Some []) \<and>
   on_click example_services (S ''gsk_1'') (S ''https://www.youtube.com/watch?v='') =
     [Call_ChatGroq (S ''gemma2-9b-it'') (S ''gsk_1''),
      St_info ([128260] @ S '' Loading YouTube video...''),
      St_error ([10060] @ S '' Could not extract video ID from URL''),
      St_error ([10060] @ S '' Could not load any content from the URL'')] \<and>
   on_click example_services (S ''gsk_1'') (S ''https://www.youtube.com/shorts/abc'') =
     [Call_ChatGroq (S ''gemma2-9b-it'') (S ''gsk_1''),
      St_info ([128260] @ S '' Loading YouTube video...''),
      St_error ([10060] @ S '' Could not extract video ID from URL''),
      St_error ([10060] @ S '' Could not load any content from the URL'')]"
proof -
  let ?u = "S ''https://www.youtube.com/watch?v=''"
  let ?w = "S ''https://www.youtube.com/shorts/abc''"
  let ?k = "S ''gsk_1''"
  have a: "sublist (S ''youtube.com/watch?v='') ?u \<and> substring_after (S ''watch?v='') ?u = []"
    by (simp add: S_def sublist_code(3))
  have k: "py_strip ?k \<noteq> []" and u: "py_strip ?u \<noteq> []" and w: "py_strip ?w \<noteq> []"
    by (simp_all add: py_strip_def isspace_def S_def)
  have v: "validators_url example_services ?u" "validators_url example_services ?w"
    by (simp_all add: example_services_def)
  have g: "ChatGroq example_services (S ''gemma2-9b-it'') ?k = Inr ()"
    by (simp add: example_services_def)
  have cw: "classify_url ?w = YouTube"
    by (simp add: classify_url_def is_youtube_url_def py_in_def S_def)
  have xw: "extract_video_id ?w = Inr None" by (simp add: extract_run)
  from empty_video_id [of ?u ?k example_services "()"] a k u v g
  have 1: "extract_video_id ?u = Inr (Some [])" and
    2: "on_click example_services ?k ?u =
     [Call_ChatGroq (S ''gemma2-9b-it'') ?k,
      St_info ([128260] @ S '' Loading YouTube video...''),
      St_error ([10060] @ S '' Could not extract video ID from URL''),
      St_error ([10060] @ S '' Could not load any content from the URL'')]"
    by simp_all
  from empty_video_id [of ?w ?k example_services "()"] k w v g cw xw
  have 3: "on_click example_services ?k ?w =
     [Call_ChatGroq (S ''gemma2-9b-it'') ?k,
      St_info ([128260] @ S '' Loading YouTube video...''),
      St_error ([10060] @ S '' Could not extract video ID from URL''),
      St_error ([10060] @ S '' Could not load any content from the URL'')]"
    by simp
  from 1 2 3 show ?thesis by simp
qed

end
